theory Spec2Isabelle
  imports Complex_Main "HOL-Library.Sublist" "HOL-Library.AList"
begin

section \<open>Domain entities (modules/domain/entities.py)\<close>

text \<open>
  Times are \<open>datetime\<close> values of microsecond resolution; they are modelled as the
  number of microseconds since the epoch, a \<open>timedelta\<close> as a number of microseconds.
  A Python \<open>float\<close> that is only stored and compared with a literal is carried as a
  real number.
\<close>

type_synonym datetime = int
type_synonym timedelta = int
type_synonym pyfloat = real

datatype SecurityThreatLevel = LOW | MEDIUM | HIGH | CRITICAL

datatype DetectionStatus = PENDING | IN_PROGRESS | COMPLETED | FAILED

record BoundingBox =
  bb_x :: int
  bb_y :: int
  bb_width :: int
  bb_height :: int
  bb_confidence :: pyfloat

record PersonDetection =
  det_timestamp :: datetime
  bounding_box :: BoundingBox
  frame_number :: int
  det_confidence :: pyfloat

record VideoClip =
  file_path :: string
  clip_start_time :: datetime
  clip_duration :: pyfloat
  frame_count :: int
  resolution :: "int \<times> int"
  trigger_detection :: PersonDetection

record SecurityAnalysis =
  video_clip :: VideoClip
  analysis_text :: string
  threat_level :: SecurityThreatLevel
  confidence :: pyfloat
  "keywords" :: "string list"
  timestamp :: datetime

text \<open>\<open>SecurityAnalysis.is_threat_detected\<close>: membership in the list of the three levels.\<close>

definition is_threat_detected :: "SecurityAnalysis \<Rightarrow> bool" where
  "is_threat_detected a = (threat_level a \<in> set [MEDIUM, HIGH, CRITICAL])"

record MonitoringSession =
  session_id :: string
  start_time :: datetime
  end_time :: "datetime option"
  detections :: "PersonDetection list"
  video_clips :: "VideoClip list"
  analyses :: "SecurityAnalysis list"
  status :: DetectionStatus

text \<open>\<open>MonitoringSession.threat_count\<close>: \<open>sum(1 for analysis in self.analyses if
  analysis.is_threat_detected)\<close>.\<close>

definition threat_count :: "MonitoringSession \<Rightarrow> int" where
  "threat_count s = sum_list (map (\<lambda>analysis. 1) (filter is_threat_detected (analyses s)))"


section \<open>The notification gate (modules/infrastructure/mobile_notifications.py)\<close>

record MobileNotificationService =
  notification_url :: "string option"
  webhook_urls :: "string list"
  min_threat_level :: SecurityThreatLevel
  server_ip :: string
  notification_port :: nat
  enable_push_notifications :: bool

text \<open>The dictionary \<open>threat_levels\<close> local to \<open>should_notify\<close>, and \<open>dict.get\<close> with a
  default.\<close>

definition threat_levels :: "SecurityThreatLevel \<rightharpoonup> nat" where
  "threat_levels = [LOW \<mapsto> 1, MEDIUM \<mapsto> 2, HIGH \<mapsto> 3, CRITICAL \<mapsto> 4]"

definition dict_get :: "('k \<rightharpoonup> 'v) \<Rightarrow> 'k \<Rightarrow> 'v \<Rightarrow> 'v" where
  "dict_get d k dflt = (case d k of None \<Rightarrow> dflt | Some v \<Rightarrow> v)"

definition should_notify :: "MobileNotificationService \<Rightarrow> SecurityAnalysis \<Rightarrow> bool" where
  "should_notify self analysis =
     (if \<not> enable_push_notifications self then False
      else if \<not> is_threat_detected analysis then False
      else
        let analysis_level = dict_get threat_levels (threat_level analysis) 0;
            min_level = dict_get threat_levels (min_threat_level self) 2
        in analysis_level \<ge> min_level)"

text \<open>The ordinal of a level as the specification numbers it.\<close>

fun level_ordinal :: "SecurityThreatLevel \<Rightarrow> nat" where
  "level_ordinal LOW = 1"
| "level_ordinal MEDIUM = 2"
| "level_ordinal HIGH = 3"
| "level_ordinal CRITICAL = 4"


section \<open>Monitoring sessions (modules/application/use_cases.py, modules/interfaces/repositories.py)\<close>

text \<open>
  \<open>InMemoryMonitoringSessionRepository\<close>: a dictionary from session id to session and the
  id of the active session. A Python dictionary keeps insertion order and assignment to an
  existing key keeps the key's place, which is what \<open>AList.update\<close> does. The repository
  stores the session object itself; every mutation of a session in the use case is followed
  by \<open>update_session\<close> on it, so storing the updated value under the same id gives the same
  contents.
\<close>

record InMemoryMonitoringSessionRepository =
  sessions :: "(string \<times> MonitoringSession) list"
  active_session_id :: "string option"

definition save_session ::
  "InMemoryMonitoringSessionRepository \<Rightarrow> MonitoringSession \<Rightarrow> InMemoryMonitoringSessionRepository"
where
  "save_session repo session =
     (let repo1 = repo\<lparr>sessions := AList.update (session_id session) session (sessions repo)\<rparr>
      in if status session = IN_PROGRESS
         then repo1\<lparr>active_session_id := Some (session_id session)\<rparr>
         else repo1)"

definition update_session ::
  "InMemoryMonitoringSessionRepository \<Rightarrow> MonitoringSession \<Rightarrow> InMemoryMonitoringSessionRepository"
where
  "update_session repo session =
     (let repo1 = repo\<lparr>sessions := AList.update (session_id session) session (sessions repo)\<rparr>
      in if status session = COMPLETED
         then repo1\<lparr>active_session_id := None\<rparr>
         else repo1)"

record MonitoringSessionUseCase =
  session_repository :: InMemoryMonitoringSessionRepository
  current_session :: "MonitoringSession option"

text \<open>\<open>end_monitoring_session\<close>; \<open>now\<close> is the reading of \<open>datetime.now()\<close>. The result is
  the returned session (or \<open>None\<close>) and the use case after the call.\<close>

definition end_monitoring_session ::
  "datetime \<Rightarrow> MonitoringSessionUseCase \<Rightarrow> MonitoringSession option \<times> MonitoringSessionUseCase"
where
  "end_monitoring_session now self =
     (case current_session self of
        None \<Rightarrow> (None, self)
      | Some cur \<Rightarrow>
          let ended_session = cur\<lparr>end_time := Some now, status := COMPLETED\<rparr>
          in (Some ended_session,
              self\<lparr>session_repository := update_session (session_repository self) ended_session,
                   current_session := None\<rparr>))"

text \<open>\<open>start_monitoring_session\<close>: ends a session that is still open, then creates and
  saves a new one. \<open>session_id_now\<close> is the text of \<open>datetime.now().strftime(...)\<close>.\<close>

definition start_monitoring_session ::
  "string \<Rightarrow> datetime \<Rightarrow> MonitoringSessionUseCase \<Rightarrow> MonitoringSession \<times> MonitoringSessionUseCase"
where
  "start_monitoring_session session_id_now now self =
     (let self1 =
            (case current_session self of
               None \<Rightarrow> self
             | Some cur \<Rightarrow>
                 if end_time cur = None then snd (end_monitoring_session now self) else self);
          new_session =
            \<lparr>session_id = ''session_'' @ session_id_now, start_time = now, end_time = None,
             detections = [], video_clips = [], analyses = [], status = IN_PROGRESS\<rparr>
      in (new_session,
          self1\<lparr>current_session := Some new_session,
                 session_repository := save_session (session_repository self1) new_session\<rparr>))"

definition add_detection_to_session ::
  "MonitoringSessionUseCase \<Rightarrow> PersonDetection \<Rightarrow> MonitoringSessionUseCase"
where
  "add_detection_to_session self detection =
     (case current_session self of
        None \<Rightarrow> self
      | Some cur \<Rightarrow>
          let cur1 = cur\<lparr>detections := detections cur @ [detection]\<rparr>
          in self\<lparr>current_session := Some cur1,
                  session_repository := update_session (session_repository self) cur1\<rparr>)"

definition add_clip_to_session ::
  "MonitoringSessionUseCase \<Rightarrow> VideoClip \<Rightarrow> MonitoringSessionUseCase"
where
  "add_clip_to_session self clip =
     (case current_session self of
        None \<Rightarrow> self
      | Some cur \<Rightarrow>
          let cur1 = cur\<lparr>video_clips := video_clips cur @ [clip]\<rparr>
          in self\<lparr>current_session := Some cur1,
                  session_repository := update_session (session_repository self) cur1\<rparr>)"

definition add_analysis_to_session ::
  "MonitoringSessionUseCase \<Rightarrow> SecurityAnalysis \<Rightarrow> MonitoringSessionUseCase"
where
  "add_analysis_to_session self analysis =
     (case current_session self of
        None \<Rightarrow> self
      | Some cur \<Rightarrow>
          let cur1 = cur\<lparr>analyses := analyses cur @ [analysis]\<rparr>
          in self\<lparr>current_session := Some cur1,
                  session_repository := update_session (session_repository self) cur1\<rparr>)"


section \<open>The detection gate (PersonDetectionUseCase in modules/application/use_cases.py)\<close>

text \<open>
  The use case is written against the interfaces of the detection service and of the
  detection repository. One call of \<open>process_frame\<close> sees: what \<open>detect_persons\<close> returns
  on the frame (\<open>None\<close> when it raises), the validity predicate of the service, whether
  \<open>save_detection\<close> raises on a detection, and two readings of \<open>datetime.now()\<close>, the
  first inside \<open>_should_process_detection\<close> and the second when the admission is stamped.
  The repository is the list of the detections saved so far.
\<close>

record frame_call =
  detect_persons :: "PersonDetection list option"
  is_detection_valid :: "PersonDetection \<Rightarrow> bool"
  save_raises :: "PersonDetection \<Rightarrow> bool"
  now_check :: datetime
  now_stamp :: datetime

record PersonDetectionUseCase =
  detection_repository :: "PersonDetection list"
  last_detection_time :: "datetime option"
  detection_cooldown :: timedelta

text \<open>The constructor: no admission yet, cooldown \<open>timedelta(seconds=5)\<close>.\<close>

definition PersonDetectionUseCase_init :: "PersonDetection list \<Rightarrow> PersonDetectionUseCase" where
  "PersonDetectionUseCase_init repo =
     \<lparr>detection_repository = repo, last_detection_time = None, detection_cooldown = 5 * 1000000\<rparr>"

definition should_process_detection :: "datetime \<Rightarrow> PersonDetectionUseCase \<Rightarrow> bool" where
  "should_process_detection now self =
     (case last_detection_time self of
        None \<Rightarrow> True
      | Some last_time \<Rightarrow> (let time_since_last = now - last_time in time_since_last \<ge> detection_cooldown self))"

text \<open>The loop that saves the valid detections: it stops at the first \<open>save_detection\<close>
  that raises. The result is the repository and whether the loop ran to its end.\<close>

fun save_detections ::
  "(PersonDetection \<Rightarrow> bool) \<Rightarrow> PersonDetection list \<Rightarrow> PersonDetection list
   \<Rightarrow> PersonDetection list \<times> bool"
where
  "save_detections raises [] repo = (repo, True)"
| "save_detections raises (d # ds) repo =
     (if raises d then (repo, False) else save_detections raises ds (repo @ [d]))"

definition process_frame ::
  "frame_call \<Rightarrow> PersonDetectionUseCase \<Rightarrow> PersonDetection list \<times> PersonDetectionUseCase"
where
  "process_frame call self =
     (case detect_persons call of
        None \<Rightarrow> ([], self)
      | Some dets \<Rightarrow>
          let valid_detections = filter (is_detection_valid call) dets
          in if valid_detections \<noteq> [] \<and> should_process_detection (now_check call) self
             then
               (case save_detections (save_raises call) valid_detections (detection_repository self) of
                  (repo, True) \<Rightarrow>
                    (valid_detections,
                     self\<lparr>detection_repository := repo,
                          last_detection_time := Some (now_stamp call)\<rparr>)
                | (repo, False) \<Rightarrow> ([], self\<lparr>detection_repository := repo\<rparr>))
             else ([], self))"

text \<open>A sequence of calls: the times stamped by the calls that admitted a batch, in order,
  and the use case after the last call.\<close>

fun admission_times :: "frame_call list \<Rightarrow> PersonDetectionUseCase \<Rightarrow> datetime list" where
  "admission_times [] self = []"
| "admission_times (call # calls) self =
     (case process_frame call self of
        (admitted, self1) \<Rightarrow>
          (if admitted \<noteq> []
           then (case last_detection_time self1 of None \<Rightarrow> [] | Some t \<Rightarrow> [t])
           else [])
          @ admission_times calls self1)"

definition clock_ok :: "frame_call \<Rightarrow> bool" where
  "clock_ok call = (now_check call \<le> now_stamp call)"


section \<open>Text operations of the Python string type\<close>

text \<open>
  Texts are taken to be ASCII: \<open>lower\<close> and \<open>upper\<close> change the 26 letters and leave every
  other character as it is. \<open>strip\<close> removes the white space at both ends: the ASCII
  white space and, of the characters above it that a \<open>char\<close> can hold, U+0085 and U+00A0.
  \<open>needle in text\<close> holds when the needle occurs as a contiguous part of the text.
\<close>

definition ascii_uppercase :: string where
  "ascii_uppercase = ''ABCDEFGHIJKLMNOPQRSTUVWXYZ''"

definition ascii_lowercase :: string where
  "ascii_lowercase = ''abcdefghijklmnopqrstuvwxyz''"

definition lower_char :: "char \<Rightarrow> char" where
  "lower_char c = (case map_of (zip ascii_uppercase ascii_lowercase) c of None \<Rightarrow> c | Some d \<Rightarrow> d)"

definition upper_char :: "char \<Rightarrow> char" where
  "upper_char c = (case map_of (zip ascii_lowercase ascii_uppercase) c of None \<Rightarrow> c | Some d \<Rightarrow> d)"

definition py_lower :: "string \<Rightarrow> string" where
  "py_lower text = map lower_char text"

definition py_upper :: "string \<Rightarrow> string" where
  "py_upper text = map upper_char text"

definition py_isspace :: "char \<Rightarrow> bool" where
  "py_isspace c =
     (c \<in> set [CHR '' '', CHR 0x09, CHR 0x0A, CHR 0x0B, CHR 0x0C, CHR 0x0D,
                CHR 0x1C, CHR 0x1D, CHR 0x1E, CHR 0x1F, CHR 0x85, CHR 0xA0])"

definition py_strip :: "string \<Rightarrow> string" where
  "py_strip text = rev (dropWhile py_isspace (rev (dropWhile py_isspace text)))"

fun str_contains :: "string \<Rightarrow> string \<Rightarrow> bool" where
  "str_contains needle [] = (needle = [])"
| "str_contains needle (c # cs) = (prefix needle (c # cs) \<or> str_contains needle cs)"

text \<open>\<open>any(phrase in text for phrase in phrases)\<close>.\<close>

definition any_in :: "string list \<Rightarrow> string \<Rightarrow> bool" where
  "any_in phrases text = list_ex (\<lambda>phrase. str_contains phrase text) phrases"


section \<open>Threat classification (SecurityThreatEvaluator in modules/domain/services.py)\<close>

definition safe_indicators :: "string list" where
  "safe_indicators =
     [''no security concerns detected'', ''normal scene'',
      ''no people or suspicious activity visible'', ''no suspicious activity'',
      ''all frames show normal'', ''normal activity'', ''no threats detected'',
      ''appears normal'']"

definition critical_keywords :: "string list" where
  "critical_keywords = [''weapon'', ''violence'', ''attack'', ''break-in'', ''forced entry'']"

definition high_keywords :: "string list" where
  "high_keywords = [''suspicious'', ''unauthorized'', ''trespassing'']"

definition negative_context :: "string list" where
  "negative_context = [''no suspicious'', ''not suspicious'', ''no unauthorized'']"

definition medium_keywords :: "string list" where
  "medium_keywords = [''unusual'', ''loitering'', ''investigation'']"

text \<open>\<open>_fallback_keyword_evaluation\<close>. The check for the high keywords returns only under
  its inner condition and otherwise falls through to the medium keywords.\<close>

definition fallback_keyword_evaluation :: "string \<Rightarrow> SecurityThreatLevel" where
  "fallback_keyword_evaluation text =
     (let text_lower = py_lower text in
      if any_in safe_indicators text_lower then LOW
      else if any_in critical_keywords text_lower then CRITICAL
      else
        (case (if any_in high_keywords text_lower
               then (if \<not> any_in negative_context text_lower then Some HIGH else None)
               else None) of
           Some level \<Rightarrow> level
         | None \<Rightarrow> if any_in medium_keywords text_lower then MEDIUM else LOW))"

text \<open>
  What one \<open>requests.post\<close> to the backend gives: a reply with its status code and the
  text of its \<open>response\<close> field (read only when the status is 200), the exception
  \<open>requests.exceptions.Timeout\<close>, or any other exception raised while posting or while
  reading the reply. The backend is a function from the timeout of the attempt, in
  seconds, to what that attempt gives.
\<close>

datatype backend_reply = Reply nat string | Timeout | OtherError

text \<open>The mapping of a reply with status 200 to a level.\<close>

definition map_threat_response :: "string \<Rightarrow> SecurityThreatLevel" where
  "map_threat_response response_text =
     (let threat_response = py_upper (py_strip response_text) in
      if str_contains ''CRITICAL'' threat_response then CRITICAL
      else if str_contains ''HIGH'' threat_response then HIGH
      else if str_contains ''MEDIUM'' threat_response then MEDIUM
      else LOW)"

text \<open>How the retry loop ends: by a \<open>return\<close>, by \<open>break\<close>, by running out of attempts,
  or by re-raising the exception of the last attempt.\<close>

datatype loop_exit = Returned SecurityThreatLevel | Broke | Exhausted | Raised

text \<open>The loop \<open>for attempt in range(max_retries)\<close>, over the attempts that remain. The
  second component lists the timeouts of the attempts made, in order.\<close>

fun retry_loop ::
  "(nat \<Rightarrow> backend_reply) \<Rightarrow> nat \<Rightarrow> nat list \<Rightarrow> loop_exit \<times> nat list"
where
  "retry_loop post max_retries [] = (Exhausted, [])"
| "retry_loop post max_retries (attempt # rest) =
     (let timeout = 60 + attempt * 30;
          continue = (case retry_loop post max_retries rest of
                        (exit, made) \<Rightarrow> (exit, timeout # made))
      in case post timeout of
           Reply status_code response_text \<Rightarrow>
             if status_code = 200 then (Returned (map_threat_response response_text), [timeout])
             else if attempt = max_retries - 1 then (Broke, [timeout])
             else continue
         | Timeout \<Rightarrow>
             if attempt = max_retries - 1 then (Broke, [timeout]) else continue
         | OtherError \<Rightarrow>
             if attempt = max_retries - 1 then (Raised, [timeout]) else continue)"

text \<open>An exception, with the text that \<open>str\<close> gives for it.\<close>

datatype py_exception = PyException string

text \<open>\<open>evaluate_threat_level\<close>: the result (an exception that leaves the function would be
  \<open>Inl\<close>) and the timeouts of the attempts made.\<close>

definition evaluate_threat_level ::
  "(nat \<Rightarrow> backend_reply) \<Rightarrow> string \<Rightarrow> (py_exception + SecurityThreatLevel) \<times> nat list"
where
  "evaluate_threat_level post text =
     (let max_retries = 3 in
      case retry_loop post max_retries [0..<max_retries] of
        (Returned level, made) \<Rightarrow> (Inr level, made)
      | (Raised, made) \<Rightarrow> (Inr (fallback_keyword_evaluation text), made)
      | (Broke, made) \<Rightarrow> (Inr LOW, made)
      | (Exhausted, made) \<Rightarrow> (Inr LOW, made))"

definition is_ok :: "backend_reply \<Rightarrow> bool" where
  "is_ok reply = (case reply of Reply status_code response_text \<Rightarrow> status_code = 200 | _ \<Rightarrow> False)"

definition reply_level :: "backend_reply \<Rightarrow> SecurityThreatLevel" where
  "reply_level reply =
     (case reply of Reply status_code response_text \<Rightarrow> map_threat_response response_text | _ \<Rightarrow> LOW)"

text \<open>The classification as a cascade over the vocabulary written out: a text contains a
  phrase of a vocabulary when, in lower case, it can be cut into a part before, the phrase,
  and a part after.\<close>

definition contains_phrase :: "string list \<Rightarrow> string \<Rightarrow> bool" where
  "contains_phrase vocabulary text =
     (\<exists>phrase \<in> set vocabulary. \<exists>before after. py_lower text = before @ phrase @ after)"

definition keyword_classifier_spec :: "string \<Rightarrow> SecurityThreatLevel" where
  "keyword_classifier_spec text =
     (if contains_phrase
           [''no security concerns detected'', ''normal scene'',
            ''no people or suspicious activity visible'', ''no suspicious activity'',
            ''all frames show normal'', ''normal activity'', ''no threats detected'',
            ''appears normal''] text
      then LOW
      else if contains_phrase
           [''weapon'', ''violence'', ''attack'', ''break-in'', ''forced entry''] text
      then CRITICAL
      else if contains_phrase [''suspicious'', ''unauthorized'', ''trespassing''] text
              \<and> \<not> contains_phrase [''no suspicious'', ''not suspicious'', ''no unauthorized''] text
      then HIGH
      else if contains_phrase [''unusual'', ''loitering'', ''investigation''] text
      then MEDIUM
      else LOW)"


section \<open>Consolidation of the batch summaries (OllamaSecurityAnalyzer in modules/infrastructure/ollama_client.py)\<close>

definition newline :: char where
  "newline = CHR 0x0A"

text \<open>\<open>sep.join(parts)\<close> and \<open>str(n)\<close> for a natural number.\<close>

fun py_join :: "string \<Rightarrow> string list \<Rightarrow> string" where
  "py_join sep [] = []"
| "py_join sep [part] = part"
| "py_join sep (part # next_part # parts) = part @ sep @ py_join sep (next_part # parts)"

definition digit_char :: "nat \<Rightarrow> char" where
  "digit_char d = ''0123456789'' ! d"

fun str_nat :: "nat \<Rightarrow> string" where
  "str_nat n = (if n < 10 then [digit_char n] else str_nat (n div 10) @ [digit_char (n mod 10)])"

declare str_nat.simps [simp del]

text \<open>
  \<open>_consolidate_analyses\<close>. The reply is what the one \<open>requests.post\<close> of the
  consolidation request gives. A reply with status 200 and a text that is not blank is
  the result; a reply with another status or a blank text gives the combined batch
  summaries under a heading; an exception gives the batch summaries, one per line, under
  another heading.
\<close>

definition consolidate_analyses :: "backend_reply \<Rightarrow> string list \<Rightarrow> py_exception + string" where
  "consolidate_analyses reply batch_summaries =
     (let combined_summaries =
            py_join [newline, newline]
              (map (\<lambda>(i, summary). ''Batch '' @ str_nat (i + 1) @ '': '' @ summary)
                 (enumerate 0 batch_summaries));
          combined_fallback = ''Multiple batch summaries:'' @ [newline] @ combined_summaries;
          except_fallback =
            ''Batch summaries (consolidation failed):'' @ [newline]
              @ py_join [newline] batch_summaries
      in case reply of
           Reply status_code response_text \<Rightarrow>
             if status_code = 200
             then (let consolidated = py_strip response_text
                   in if consolidated \<noteq> [] then Inr consolidated else Inr combined_fallback)
             else Inr combined_fallback
         | Timeout \<Rightarrow> Inr except_fallback
         | OtherError \<Rightarrow> Inr except_fallback)"

text \<open>The consolidation request fails: another status than 200, a blank text, or an
  exception.\<close>

definition consolidation_failed :: "backend_reply \<Rightarrow> bool" where
  "consolidation_failed reply =
     (case reply of
        Reply status_code response_text \<Rightarrow> status_code \<noteq> 200 \<or> py_strip response_text = []
      | Timeout \<Rightarrow> True
      | OtherError \<Rightarrow> True)"


section \<open>The analysis of a clip (OllamaSecurityAnalyzer.analyze_video)\<close>

text \<open>
  What a run of \<open>analyze_video\<close> meets outside the analyzer: the frames that
  \<open>extract_frames\<close> reads from the file (it catches its own exceptions and then returns
  the frames read so far), their encoding, the replies of the backend to the batch
  requests (by batch number) and to the consolidation request, the replies to the classification attempts,
  the keyword extraction and the confidence score, which are taken as given, and the
  reading of the clock. Saving the frames and logging the session catch their own
  exceptions and do not affect the result. The batch requests run on two threads; each
  result is stored at the index of its batch, so the order of completion does not show.
\<close>

record 'frame analysis_env =
  extract_frames :: "string \<Rightarrow> 'frame list"
  frames_to_base64 :: "'frame list \<Rightarrow> string list"
  batch_post :: "nat \<Rightarrow> string list \<Rightarrow> backend_reply"
  consolidation_post :: "string list \<Rightarrow> backend_reply"
  threat_post :: "string \<Rightarrow> nat \<Rightarrow> backend_reply"
  extract_keywords :: "string \<Rightarrow> py_exception + string list"
  calculate_confidence :: "string \<Rightarrow> string list \<Rightarrow> pyfloat"
  clock_now :: datetime

definition create_failed_analysis :: "datetime \<Rightarrow> VideoClip \<Rightarrow> string \<Rightarrow> SecurityAnalysis" where
  "create_failed_analysis now clip error_message =
     \<lparr>video_clip = clip, analysis_text = ''Analysis failed: '' @ error_message,
      threat_level = LOW, confidence = 0, keywords = [], timestamp = now\<rparr>"

text \<open>The method of the same name in the other implementation of the analysis service,
  \<open>GemmaTransformerSecurityAnalyzer\<close> (modules/infrastructure/gemma_transformer_client.py).\<close>

definition gemma_create_failed_analysis :: "datetime \<Rightarrow> VideoClip \<Rightarrow> string \<Rightarrow> SecurityAnalysis" where
  "gemma_create_failed_analysis now clip error_message =
     \<lparr>video_clip = clip, analysis_text = ''Analysis failed: '' @ error_message,
      threat_level = LOW, confidence = 0, keywords = [''analysis_failed''], timestamp = now\<rparr>"

text \<open>\<open>[frame_data[i:i + batch_size] for i in range(0, len(frame_data), batch_size)]\<close>.\<close>

definition frame_batches :: "nat \<Rightarrow> 'a list \<Rightarrow> 'a list list" where
  "frame_batches batch_size frame_data =
     map (\<lambda>i. take batch_size (drop i frame_data))
       (map (\<lambda>k. k * batch_size) [0..<(length frame_data + batch_size - 1) div batch_size])"

text \<open>\<open>_analyze_frame_batch\<close>: the summary of the batch, or \<open>None\<close>.\<close>

definition analyze_frame_batch :: "(string list \<Rightarrow> backend_reply) \<Rightarrow> string list \<Rightarrow> string option" where
  "analyze_frame_batch post frame_batch =
     (case post frame_batch of
        Reply status_code response_text \<Rightarrow>
          if status_code = 200
          then (let raw_analysis = py_strip response_text
                in if raw_analysis \<noteq> [] then Some raw_analysis else None)
          else None
      | Timeout \<Rightarrow> None
      | OtherError \<Rightarrow> None)"

definition analyze_frames_individually ::
  "'frame analysis_env \<Rightarrow> string list \<Rightarrow> py_exception + string option"
where
  "analyze_frames_individually env frame_data =
     (let batch_summaries =
            map (\<lambda>(batch_idx, batch).
                   case analyze_frame_batch (batch_post env (batch_idx + 1)) batch of
                     Some batch_summary \<Rightarrow> batch_summary
                   | None \<Rightarrow> ''No analysis received'')
              (enumerate 0 (frame_batches 4 frame_data))
      in if batch_summaries = [] then Inr None
         else (case consolidate_analyses (consolidation_post env batch_summaries) batch_summaries of
                 Inl e \<Rightarrow> Inl e
               | Inr consolidated_analysis \<Rightarrow> Inr (Some consolidated_analysis)))"

text \<open>\<open>analyze_video\<close>: every exception raised in its body is caught and turned into a
  failed analysis.\<close>

definition analysis_error :: "datetime \<Rightarrow> VideoClip \<Rightarrow> py_exception \<Rightarrow> SecurityAnalysis" where
  "analysis_error now clip e =
     (case e of PyException msg \<Rightarrow> create_failed_analysis now clip (''Analysis error: '' @ msg))"

definition analyze_video :: "'frame analysis_env \<Rightarrow> VideoClip \<Rightarrow> SecurityAnalysis" where
  "analyze_video env clip =
     (let frames = extract_frames env (file_path clip) in
      if frames = [] then create_failed_analysis (clock_now env) clip ''Failed to extract frames''
      else
        let frame_data = frames_to_base64 env frames in
        case analyze_frames_individually env frame_data of
          Inl e \<Rightarrow> analysis_error (clock_now env) clip e
        | Inr None \<Rightarrow>
            create_failed_analysis (clock_now env) clip ''Failed to get AI analysis after retries''
        | Inr (Some text) \<Rightarrow>
            if text = []
            then create_failed_analysis (clock_now env) clip ''Failed to get AI analysis after retries''
            else
              (case fst (evaluate_threat_level (threat_post env text) text) of
                 Inl e \<Rightarrow> analysis_error (clock_now env) clip e
               | Inr level \<Rightarrow>
                   (case extract_keywords env text of
                      Inl e \<Rightarrow> analysis_error (clock_now env) clip e
                    | Inr kws \<Rightarrow>
                        \<lparr>video_clip = clip, analysis_text = text, threat_level = level,
                         confidence = calculate_confidence env text kws, keywords = kws,
                         timestamp = clock_now env\<rparr>)))"


section \<open>Notification payloads and their delivery (mobile_notifications.py)\<close>

text \<open>
  A notification payload is a dictionary with string keys whose values are what
  \<open>json.dumps\<close> can write: \<open>None\<close>, booleans, integers, floats, strings, lists and
  dictionaries. A float is carried as the text that \<open>json.dumps\<close> writes for it. A
  dictionary is the list of its items in insertion order.
\<close>

datatype json =
  JNull | JBool bool | JInt int | JFloat string | JString string
  | JList "json list" | JDict "(string \<times> json) list"

text \<open>
  \<open>json.dumps(payload, separators=(',', ':'))\<close>, with \<open>ensure_ascii\<close> left at its
  default: in a string the quote and the backslash are escaped, the control characters
  have their short escapes or the six-character escape with four hexadecimal digits, and
  so has every character outside the printable ASCII range. The output is ASCII, so its UTF-8 encoding has one byte per character.
\<close>

definition hex_digit :: "nat \<Rightarrow> char" where
  "hex_digit d = ''0123456789abcdef'' ! d"

definition escape_char :: "char \<Rightarrow> string" where
  "escape_char c =
     (if c = CHR 0x22 then [CHR 0x5C, CHR 0x22]
      else if c = CHR 0x5C then [CHR 0x5C, CHR 0x5C]
      else if c = CHR 0x0A then [CHR 0x5C, CHR ''n'']
      else if c = CHR 0x0D then [CHR 0x5C, CHR ''r'']
      else if c = CHR 0x09 then [CHR 0x5C, CHR ''t'']
      else if c = CHR 0x08 then [CHR 0x5C, CHR ''b'']
      else if c = CHR 0x0C then [CHR 0x5C, CHR ''f'']
      else if (of_char c :: nat) < 32 \<or> (of_char c :: nat) > 126
      then [CHR 0x5C, CHR ''u'', CHR ''0'', CHR ''0'',
            hex_digit ((of_char c :: nat) div 16), hex_digit ((of_char c :: nat) mod 16)]
      else [c])"

definition dumps_string :: "string \<Rightarrow> string" where
  "dumps_string s = [CHR 0x22] @ concat (map escape_char s) @ [CHR 0x22]"

definition str_int :: "int \<Rightarrow> string" where
  "str_int i = (if i < 0 then CHR ''-'' # str_nat (nat (- i)) else str_nat (nat i))"

fun dumps :: "json \<Rightarrow> string" where
  "dumps JNull = ''null''"
| "dumps (JBool b) = (if b then ''true'' else ''false'')"
| "dumps (JInt i) = str_int i"
| "dumps (JFloat repr) = repr"
| "dumps (JString s) = dumps_string s"
| "dumps (JList items) = ''['' @ py_join '','' (map dumps items) @ '']''"
| "dumps (JDict members) =
     ''{'' @ py_join '','' (map (\<lambda>(k, v). dumps_string k @ '':'' @ dumps v) members) @ ''}''"


text \<open>\<open>payload.get(key, default)\<close>, \<open>len(v)\<close> and the slice \<open>v[:n]\<close> on a value of a
  payload; the last two raise \<open>TypeError\<close> on a value that has no length or cannot be
  sliced.\<close>

type_synonym payload = "(string \<times> json) list"

definition payload_get :: "payload \<Rightarrow> string \<Rightarrow> json \<Rightarrow> json" where
  "payload_get payload key dflt = dict_get (map_of payload) key dflt"

definition py_len :: "json \<Rightarrow> py_exception + nat" where
  "py_len v =
     (case v of
        JString s \<Rightarrow> Inr (length s)
      | JList items \<Rightarrow> Inr (length items)
      | JDict members \<Rightarrow> Inr (length members)
      | _ \<Rightarrow> Inl (PyException ''TypeError''))"

definition py_slice_to :: "nat \<Rightarrow> json \<Rightarrow> py_exception + json" where
  "py_slice_to n v =
     (case v of
        JString s \<Rightarrow> Inr (JString (take n s))
      | JList items \<Rightarrow> Inr (JList (take n items))
      | _ \<Rightarrow> Inl (PyException ''TypeError''))"

text \<open>
  \<open>_extract_summary\<close>. \<open>s.replace('**', '')\<close> removes the pairs of stars from left to
  right; the two replacements after it remove every star and every hash sign.
  \<open>text.split('.')\<close> cuts the text at every full stop.
\<close>

fun remove_pairs :: "char \<Rightarrow> string \<Rightarrow> string" where
  "remove_pairs x (a # b # cs) =
     (if a = x \<and> b = x then remove_pairs x cs else a # remove_pairs x (b # cs))"
| "remove_pairs x cs = cs"

definition strip_markup :: "string \<Rightarrow> string" where
  "strip_markup s =
     filter (\<lambda>c. c \<noteq> CHR ''#'') (filter (\<lambda>c. c \<noteq> CHR ''*'') (remove_pairs CHR ''*'' s))"

fun split_char :: "char \<Rightarrow> string \<Rightarrow> string list" where
  "split_char sep [] = [[]]"
| "split_char sep (c # cs) =
     (if c = sep then [] # split_char sep cs
      else (case split_char sep cs of
              [] \<Rightarrow> [[c]]
            | part # parts \<Rightarrow> (c # part) # parts))"

fun first_sentence :: "string list \<Rightarrow> string option" where
  "first_sentence [] = None"
| "first_sentence (sentence # sentences) =
     (let sentence1 = py_strip sentence in
      if length sentence1 > 20
      then (let sentence2 = strip_markup sentence1
            in Some (if length sentence2 > 100 then take 100 sentence2 @ ''...'' else sentence2))
      else first_sentence sentences)"

definition extract_summary :: "string \<Rightarrow> string" where
  "extract_summary analysis_txt =
     (if analysis_txt = [] then ''Security event detected''
      else
        let t = py_strip analysis_txt in
        if str_contains ''No security incidents detected'' t \<or> str_contains ''Routine surveillance'' t
        then ''Routine activity - no security concerns''
        else (case first_sentence (split_char CHR ''.'' t) of
                Some sentence \<Rightarrow> sentence
              | None \<Rightarrow>
                  strip_markup (if length t > 100 then take 100 t @ ''...'' else t)))"

text \<open>\<open>_extract_camera_name\<close>.\<close>

definition extract_camera_name :: "string option \<Rightarrow> string" where
  "extract_camera_name path =
     (case path of
        None \<Rightarrow> ''Security Camera''
      | Some p \<Rightarrow>
          if p = [] then ''Security Camera''
          else
            let path_lower = py_lower p in
            if str_contains ''front'' path_lower \<or> str_contains ''door'' path_lower
            then ''Front Door Camera''
            else if str_contains ''back'' path_lower \<or> str_contains ''yard'' path_lower
            then ''Backyard Camera''
            else if str_contains ''side'' path_lower \<or> str_contains ''gate'' path_lower
            then ''Side Gate Camera''
            else if str_contains ''garage'' path_lower then ''Garage Camera''
            else ''Security Camera'')"

fun level_value :: "SecurityThreatLevel \<Rightarrow> string" where
  "level_value LOW = ''low''"
| "level_value MEDIUM = ''medium''"
| "level_value HIGH = ''high''"
| "level_value CRITICAL = ''critical''"

text \<open>
  What \<open>_create_broadcast_notification_payload\<close> takes from outside the service: the
  \<open>name\<close> and the \<open>stem\<close> that \<open>pathlib.Path\<close> gives for a path, the text of
  \<open>datetime.now()\<close> in the two formats used, and the text that \<open>json.dumps\<close> writes
  for a float.
\<close>

record payload_env =
  path_name :: "string \<Rightarrow> string"
  path_stem :: "string \<Rightarrow> string"
  strftime_now :: string
  isoformat_now :: string
  float_repr :: "pyfloat \<Rightarrow> string"

definition json_optional :: "string option \<Rightarrow> json" where
  "json_optional v = (case v of None \<Rightarrow> JNull | Some s \<Rightarrow> JString s)"

definition py_truthy :: "string option \<Rightarrow> bool" where
  "py_truthy v = (case v of None \<Rightarrow> False | Some s \<Rightarrow> s \<noteq> [])"

definition create_broadcast_notification_payload ::
  "payload_env \<Rightarrow> MobileNotificationService \<Rightarrow> SecurityAnalysis \<Rightarrow> string option \<Rightarrow> payload"
where
  "create_broadcast_notification_payload env self analysis video_path =
     (let video_filename = (if py_truthy video_path
                            then map_option (path_name env) video_path else None);
          video_id = (if py_truthy video_path
                      then map_option (path_stem env) video_path else None);
          analysis_summary = extract_summary (analysis_text analysis)
      in [(''type'', JString ''security_alert''),
          (''id'', JString (case video_id of
                             None \<Rightarrow> ''alert_'' @ strftime_now env
                           | Some stem \<Rightarrow> if stem \<noteq> [] then stem else ''alert_'' @ strftime_now env)),
          (''timestamp'', JString (isoformat_now env @ ''Z'')),
          (''threatLevel'', JString (py_upper (level_value (threat_level analysis)))),
          (''confidence'', JFloat (float_repr env (confidence analysis))),
          (''summary'', JString analysis_summary),
          (''camera'', JString (extract_camera_name video_path)),
          (''keywords'', JList (map JString (if keywords analysis \<noteq> []
                                            then take 3 (keywords analysis) else []))),
          (''video_id'', json_optional video_id),
          (''video_filename'', json_optional video_filename),
          (''is_threat_detected'', JBool (is_threat_detected analysis)),
          (''api_endpoint'',
             (if py_truthy video_id
              then (case video_id of
                      None \<Rightarrow> JNull
                    | Some stem \<Rightarrow>
                        JString (''http://'' @ server_ip self @ '':''
                                 @ str_nat (notification_port self)
                                 @ ''/api/security/videos/'' @ stem))
              else JNull)),
          (''server_info'',
             JDict [(''ip'', JString (server_ip self)),
                    (''port'', JInt (int (notification_port self)))])])"

text \<open>
  \<open>_send_broadcast_notification\<close>. The message is the serialized payload; when it is
  longer than 1400 bytes the compact dictionary is built from the payload and serialized
  in its place. The size of the compact message is not looked at again.
\<close>

definition compact_payload :: "payload \<Rightarrow> py_exception + payload" where
  "compact_payload payload =
     (case py_slice_to 100 (payload_get payload ''summary'' (JString [])) of
        Inl e \<Rightarrow> Inl e
      | Inr summary_slice \<Rightarrow>
          (case py_slice_to 2 (payload_get payload ''keywords'' (JList [])) of
             Inl e \<Rightarrow> Inl e
           | Inr keywords_slice \<Rightarrow>
               Inr [(''type'', payload_get payload ''type'' JNull),
                    (''id'', payload_get payload ''id'' JNull),
                    (''timestamp'', payload_get payload ''timestamp'' JNull),
                    (''threatLevel'', payload_get payload ''threatLevel'' JNull),
                    (''confidence'', payload_get payload ''confidence'' JNull),
                    (''summary'', summary_slice),
                    (''camera'', payload_get payload ''camera'' JNull),
                    (''keywords'', keywords_slice),
                    (''server_info'', payload_get payload ''server_info'' JNull)]))"

definition broadcast_message :: "payload \<Rightarrow> py_exception + string" where
  "broadcast_message payload =
     (let message = dumps (JDict payload) in
      if length message > 1400
      then (case compact_payload payload of
              Inl e \<Rightarrow> Inl e
            | Inr compact_dict \<Rightarrow> Inr (dumps (JDict compact_dict)))
      else Inr message)"

text \<open>The line that computes the summary for the log, before the \<open>try\<close> block: an
  exception raised there leaves the function.\<close>

definition broadcast_log_line :: "payload \<Rightarrow> py_exception + unit" where
  "broadcast_log_line payload =
     (case py_len (payload_get payload ''summary'' (JString [])) of
        Inl e \<Rightarrow> Inl e
      | Inr n \<Rightarrow>
          if n > 50
          then (case payload_get payload ''summary'' (JString ''Security alert'') of
                  JString s \<Rightarrow> Inr ()
                | _ \<Rightarrow> Inl (PyException ''TypeError''))
          else Inr ())"

text \<open>
  The network: the broadcast addresses that \<open>_get_broadcast_addresses\<close> discovers, the
  ports on which opening the socket fails, the address and port pairs on which \<open>sendto\<close>
  fails (such a failure is logged and the loop goes on), what the POST to the webhook at
  a position of the list gives, and what the POST to the primary URL gives.
  A datagram is the address, the port and the message of a \<open>sendto\<close> that succeeded.
\<close>

datatype http_outcome = HttpStatus nat | HttpTimeout | HttpError

record network =
  broadcast_addresses :: "string list"
  socket_fails :: "nat \<Rightarrow> bool"
  sendto_fails :: "string \<Rightarrow> nat \<Rightarrow> bool"
  webhook_post :: "nat \<Rightarrow> string \<Rightarrow> http_outcome"
  http_post :: "string \<Rightarrow> http_outcome"

type_synonym datagram = "string \<times> nat \<times> string"

definition broadcast_ports :: "nat list" where
  "broadcast_ports = [9999, 9998, 10000, 8888]"

fun broadcast_on_ports ::
  "network \<Rightarrow> string \<Rightarrow> nat list \<Rightarrow> nat \<times> datagram list"
where
  "broadcast_on_ports net message [] = (0, [])"
| "broadcast_on_ports net message (port # ports) =
     (case broadcast_on_ports net message ports of
        (success_count, sent) \<Rightarrow>
          if socket_fails net port then (success_count, sent)
          else (success_count + 1,
                map (\<lambda>addr. (addr, port, message))
                  (filter (\<lambda>addr. \<not> sendto_fails net addr port) (broadcast_addresses net))
                @ sent))"

definition send_broadcast_notification ::
  "network \<Rightarrow> payload \<Rightarrow> (py_exception + bool) \<times> datagram list"
where
  "send_broadcast_notification net payload =
     (case broadcast_log_line payload of
        Inl e \<Rightarrow> (Inl e, [])
      | Inr u \<Rightarrow>
          (case broadcast_message payload of
             Inl e \<Rightarrow> (Inr False, [])
           | Inr message \<Rightarrow>
               (case broadcast_on_ports net message broadcast_ports of
                  (success_count, sent) \<Rightarrow> (Inr (success_count > 0), sent))))"

definition post_succeeds :: "http_outcome \<Rightarrow> bool" where
  "post_succeeds outcome = (case outcome of HttpStatus code \<Rightarrow> code = 200 | _ \<Rightarrow> False)"

definition send_webhook_notifications :: "network \<Rightarrow> string list \<Rightarrow> bool" where
  "send_webhook_notifications net urls =
     (let success_count =
            length (filter (\<lambda>(i, url). post_succeeds (webhook_post net i url)) (enumerate 0 urls))
      in success_count > 0)"

definition send_http_notification :: "network \<Rightarrow> string \<Rightarrow> bool" where
  "send_http_notification net url = post_succeeds (http_post net url)"

text \<open>
  \<open>send_security_alert\<close>: the result, and the channels tried, in order, each with its
  outcome. An exception in the \<open>try\<close> block makes the result \<open>False\<close>.
\<close>

datatype channel = Broadcast | Webhooks | Http

definition send_security_alert ::
  "payload_env \<Rightarrow> network \<Rightarrow> MobileNotificationService \<Rightarrow> SecurityAnalysis \<Rightarrow> string option
   \<Rightarrow> bool \<times> (channel \<times> bool) list"
where
  "send_security_alert env net self analysis video_path =
     (if \<not> should_notify self analysis then (False, [])
      else
        let notification = create_broadcast_notification_payload env self analysis video_path in
        case fst (send_broadcast_notification net notification) of
          Inl e \<Rightarrow> (False, [(Broadcast, False)])
        | Inr broadcast_success \<Rightarrow>
            let success = broadcast_success;
                trace1 = [(Broadcast, broadcast_success)];
                (success2, trace2) =
                  (if webhook_urls self \<noteq> [] \<and> \<not> success
                   then (let webhook_success = send_webhook_notifications net (webhook_urls self)
                         in (success \<or> webhook_success, trace1 @ [(Webhooks, webhook_success)]))
                   else (success, trace1));
                (success3, trace3) =
                  (if py_truthy (notification_url self) \<and> \<not> success2
                   then (case notification_url self of
                           None \<Rightarrow> (success2, trace2)
                         | Some url \<Rightarrow>
                             (let http_success = send_http_notification net url
                              in (http_success, trace2 @ [(Http, http_success)])))
                   else (success2, trace2))
            in (success3, trace3))"

text \<open>The outcome of the broadcast channel for the payload built from an analysis.\<close>

definition broadcast_outcome ::
  "payload_env \<Rightarrow> network \<Rightarrow> MobileNotificationService \<Rightarrow> SecurityAnalysis \<Rightarrow> string option
   \<Rightarrow> bool"
where
  "broadcast_outcome env net self analysis video_path =
     (case fst (send_broadcast_notification net
                  (create_broadcast_notification_payload env self analysis video_path)) of
        Inl e \<Rightarrow> False
      | Inr ok \<Rightarrow> ok)"


section \<open>Sample values\<close>

definition sample_detection :: PersonDetection where
  "sample_detection =
     \<lparr>det_timestamp = 0,
      bounding_box = \<lparr>bb_x = 10, bb_y = 20, bb_width = 40, bb_height = 90, bb_confidence = 1\<rparr>,
      frame_number = 7, det_confidence = 1\<rparr>"

definition sample_clip :: VideoClip where
  "sample_clip =
     \<lparr>file_path = ''recordings/security_clip_1.mp4'', clip_start_time = 0, clip_duration = 60,
      frame_count = 1800, resolution = (1920, 1080), trigger_detection = sample_detection\<rparr>"

definition sample_analysis :: "SecurityThreatLevel \<Rightarrow> SecurityAnalysis" where
  "sample_analysis lvl =
     \<lparr>video_clip = sample_clip, analysis_text = ''Person at the gate'', threat_level = lvl,
      confidence = 1, keywords = [''person'', ''gate''], timestamp = 5\<rparr>"

definition sample_service :: "bool \<Rightarrow> SecurityThreatLevel \<Rightarrow> MobileNotificationService" where
  "sample_service enabled lvl =
     \<lparr>notification_url = None, webhook_urls = [], min_threat_level = lvl,
      server_ip = ''192.168.1.10'', notification_port = 8888,
      enable_push_notifications = enabled\<rparr>"

definition sample_session :: MonitoringSession where
  "sample_session =
     \<lparr>session_id = ''session_20250101_120000'', start_time = 0, end_time = None,
      detections = [sample_detection], video_clips = [], analyses = [sample_analysis LOW],
      status = IN_PROGRESS\<rparr>"

definition idle_use_case :: MonitoringSessionUseCase where
  "idle_use_case =
     \<lparr>session_repository = \<lparr>sessions = [], active_session_id = None\<rparr>, current_session = None\<rparr>"

definition active_use_case :: MonitoringSessionUseCase where
  "active_use_case =
     \<lparr>session_repository =
        \<lparr>sessions = [(''session_20250101_120000'', sample_session)],
         active_session_id = Some ''session_20250101_120000''\<rparr>,
      current_session = Some sample_session\<rparr>"

definition sample_call :: "datetime \<Rightarrow> datetime \<Rightarrow> frame_call" where
  "sample_call t1 t2 =
     \<lparr>detect_persons = Some [sample_detection], is_detection_valid = (\<lambda>d. True),
      save_raises = (\<lambda>d. False), now_check = t1, now_stamp = t2\<rparr>"

definition prompt_backend :: "nat \<Rightarrow> backend_reply" where
  "prompt_backend timeout = Reply 200 ''Critical''"

definition flaky_backend :: "nat \<Rightarrow> backend_reply" where
  "flaky_backend timeout = (if timeout = 60 then OtherError else Reply 200 ''HIGH'')"

definition failing_backend :: "nat \<Rightarrow> backend_reply" where
  "failing_backend timeout = OtherError"

definition timeout_backend :: "nat \<Rightarrow> backend_reply" where
  "timeout_backend timeout = Timeout"

definition no_frames_env :: "nat analysis_env" where
  "no_frames_env =
     \<lparr>extract_frames = (\<lambda>path. []), frames_to_base64 = (\<lambda>frames. []),
      batch_post = (\<lambda>batch_number batch. Timeout), consolidation_post = (\<lambda>summaries. Timeout),
      threat_post = (\<lambda>text timeout. Timeout), extract_keywords = (\<lambda>text. Inr []),
      calculate_confidence = (\<lambda>text kws. 1), clock_now = 42\<rparr>"

definition sample_payload_env :: payload_env where
  "sample_payload_env =
     \<lparr>path_name = (\<lambda>p. ''security_clip_1.mp4''), path_stem = (\<lambda>p. ''security_clip_1''),
      strftime_now = ''20250101_120000'', isoformat_now = ''2025-01-01T12:00:00'',
      float_repr = (\<lambda>c. ''0.8'')\<rparr>"

definition deaf_network :: network where
  "deaf_network =
     \<lparr>broadcast_addresses = [''255.255.255.255''], socket_fails = (\<lambda>port. True),
      sendto_fails = (\<lambda>addr port. False), webhook_post = (\<lambda>i url. HttpStatus 200),
      http_post = (\<lambda>url. HttpStatus 200)\<rparr>"

definition webhooks_down_network :: network where
  "webhooks_down_network =
     \<lparr>broadcast_addresses = [''255.255.255.255''], socket_fails = (\<lambda>port. True),
      sendto_fails = (\<lambda>addr port. False), webhook_post = (\<lambda>i url. HttpStatus 500),
      http_post = (\<lambda>url. HttpStatus 200)\<rparr>"

definition full_service :: MobileNotificationService where
  "full_service =
     \<lparr>notification_url = Some ''http://192.168.1.20:3000/notify'',
      webhook_urls = [''http://192.168.1.30/hook''], min_threat_level = MEDIUM,
      server_ip = ''192.168.1.10'', notification_port = 8888,
      enable_push_notifications = True\<rparr>"

definition open_network :: network where
  "open_network =
     \<lparr>broadcast_addresses = [''255.255.255.255''], socket_fails = (\<lambda>port. False),
      sendto_fails = (\<lambda>addr port. False), webhook_post = (\<lambda>i url. HttpStatus 200),
      http_post = (\<lambda>url. HttpStatus 200)\<rparr>"

definition long_keyword :: string where
  "long_keyword = replicate 1400 CHR ''k''"

definition long_keyword_analysis :: SecurityAnalysis where
  "long_keyword_analysis = (sample_analysis HIGH)\<lparr>keywords := [long_keyword]\<rparr>"

definition long_keyword_payload :: payload where
  "long_keyword_payload =
     create_broadcast_notification_payload sample_payload_env full_service long_keyword_analysis
       (Some ''recordings/security_clip_1.mp4'')"

definition test_payload :: payload where
  "test_payload =
     [(''type'', JString ''test_notification''),
      (''timestamp'', JString ''2025-01-01T12:00:00Z''),
      (''summary'', JString ''Security monitoring system test notification''),
      (''threatLevel'', JString ''TEST''),
      (''server_info'',
         JDict [(''ip'', JString ''192.168.1.10''), (''port'', JInt 8888),
                (''status'', JString ''active'')])]"


section \<open>Threat detection and threat count\<close>

lemma threat_levels_get [simp]:
  "dict_get threat_levels l d = level_ordinal l"
  by (cases l) (simp_all add: dict_get_def threat_levels_def)

lemma is_threat_detected_cases:
  "is_threat_detected a = (threat_level a = MEDIUM \<or> threat_level a = HIGH \<or> threat_level a = CRITICAL)"
  by (auto simp add: is_threat_detected_def)

lemma sum_list_ones: "sum_list (map (\<lambda>a. 1::int) xs) = int (length xs)"
  by (induction xs) simp_all

text \<open>
  C8. \<open>is_threat_detected\<close> holds exactly when the threat level is strictly above LOW, that
  is for MEDIUM, HIGH and CRITICAL and not for LOW; the threat count of a session is the
  number of its analyses whose level is above LOW.
\<close>

theorem is_threat_detected_above_low:
  "is_threat_detected a = (level_ordinal (threat_level a) > level_ordinal LOW)
   \<and> is_threat_detected a = (threat_level a \<noteq> LOW)
   \<and> is_threat_detected (a\<lparr>threat_level := MEDIUM\<rparr>)
   \<and> is_threat_detected (a\<lparr>threat_level := HIGH\<rparr>)
   \<and> is_threat_detected (a\<lparr>threat_level := CRITICAL\<rparr>)
   \<and> \<not> is_threat_detected (a\<lparr>threat_level := LOW\<rparr>)
   \<and> threat_count s =
       int (length (filter (\<lambda>x. level_ordinal (threat_level x) > level_ordinal LOW) (analyses s)))"
proof -
  have lvl: "is_threat_detected x = (level_ordinal (threat_level x) > level_ordinal LOW)" for x
    by (cases "threat_level x") (simp_all add: is_threat_detected_cases)
  have neq: "is_threat_detected x = (threat_level x \<noteq> LOW)" for x
    by (cases "threat_level x") (simp_all add: is_threat_detected_cases)
  have cnt: "threat_count s =
      int (length (filter (\<lambda>x. level_ordinal (threat_level x) > level_ordinal LOW) (analyses s)))"
    unfolding threat_count_def sum_list_ones using lvl by (simp cong: filter_cong)
  show ?thesis
    using lvl [of a] neq [of a] cnt by (simp add: is_threat_detected_cases)
qed


section \<open>The notification threshold\<close>

text \<open>
  C1 as stated fails: the service has a switch, \<open>enable_push_notifications\<close>, set from the
  configuration, and with the switch off no analysis is notified, whatever its level.
\<close>

theorem should_notify_disabled_counterexample:
  "should_notify (sample_service False MEDIUM) (sample_analysis HIGH) = False
   \<and> is_threat_detected (sample_analysis HIGH)
   \<and> level_ordinal (threat_level (sample_analysis HIGH))
       \<ge> level_ordinal (min_threat_level (sample_service False MEDIUM))"
  by (simp add: should_notify_def sample_service_def sample_analysis_def is_threat_detected_cases)

text \<open>
  C1, amended. \<open>should_notify\<close> returns true exactly when push notifications are enabled,
  a threat is detected, and the ordinal of the analysis level (LOW=1, MEDIUM=2, HIGH=3,
  CRITICAL=4) is at least the ordinal of the configured minimum level. With notifications
  enabled, level MEDIUM against minimum HIGH gives false and level HIGH against minimum
  MEDIUM gives true.
\<close>

theorem should_notify_iff:
  "should_notify self analysis =
     (enable_push_notifications self \<and> is_threat_detected analysis
      \<and> level_ordinal (threat_level analysis) \<ge> level_ordinal (min_threat_level self))
   \<and> should_notify (self\<lparr>enable_push_notifications := True, min_threat_level := HIGH\<rparr>)
        (analysis\<lparr>threat_level := MEDIUM\<rparr>) = False
   \<and> should_notify (self\<lparr>enable_push_notifications := True, min_threat_level := MEDIUM\<rparr>)
        (analysis\<lparr>threat_level := HIGH\<rparr>) = True"
  by (simp add: should_notify_def Let_def is_threat_detected_cases)


section \<open>Session mutators\<close>

text \<open>
  C10. With no current session the three mutators leave the use case (current session
  and repository) unchanged and \<open>end_monitoring_session\<close> returns \<open>None\<close> and changes
  nothing. With a current session each mutator appends exactly its argument to its own
  list of that session and leaves the other two lists as they were.
\<close>

theorem session_mutators_frame:
  "(current_session self = None \<longrightarrow>
      add_detection_to_session self d = self
      \<and> add_clip_to_session self c = self
      \<and> add_analysis_to_session self a = self
      \<and> end_monitoring_session now self = (None, self))
   \<and> (current_session self = Some cur \<longrightarrow>
      (\<exists>cur1. current_session (add_detection_to_session self d) = Some cur1
         \<and> detections cur1 = detections cur @ [d]
         \<and> video_clips cur1 = video_clips cur \<and> analyses cur1 = analyses cur)
      \<and> (\<exists>cur1. current_session (add_clip_to_session self c) = Some cur1
         \<and> video_clips cur1 = video_clips cur @ [c]
         \<and> detections cur1 = detections cur \<and> analyses cur1 = analyses cur)
      \<and> (\<exists>cur1. current_session (add_analysis_to_session self a) = Some cur1
         \<and> analyses cur1 = analyses cur @ [a]
         \<and> detections cur1 = detections cur \<and> video_clips cur1 = video_clips cur))"
  by (simp add: add_detection_to_session_def add_clip_to_session_def
      add_analysis_to_session_def end_monitoring_session_def Let_def)

theorem session_mutators_frame_witness:
  "current_session idle_use_case = None
   \<and> add_detection_to_session idle_use_case sample_detection = idle_use_case
   \<and> add_clip_to_session idle_use_case sample_clip = idle_use_case
   \<and> add_analysis_to_session idle_use_case (sample_analysis HIGH) = idle_use_case
   \<and> end_monitoring_session 9 idle_use_case = (None, idle_use_case)
   \<and> current_session active_use_case = Some sample_session
   \<and> (\<exists>cur1. current_session (add_detection_to_session active_use_case sample_detection) = Some cur1
         \<and> detections cur1 = [sample_detection, sample_detection]
         \<and> video_clips cur1 = [] \<and> analyses cur1 = [sample_analysis LOW])
   \<and> (\<exists>cur1. current_session (add_clip_to_session active_use_case sample_clip) = Some cur1
         \<and> video_clips cur1 = [sample_clip]
         \<and> detections cur1 = [sample_detection] \<and> analyses cur1 = [sample_analysis LOW])
   \<and> (\<exists>cur1. current_session (add_analysis_to_session active_use_case (sample_analysis HIGH)) = Some cur1
         \<and> analyses cur1 = [sample_analysis LOW, sample_analysis HIGH]
         \<and> detections cur1 = [sample_detection] \<and> video_clips cur1 = [])"
proof -
  have idle: "current_session idle_use_case = None"
    by (simp add: idle_use_case_def)
  have active: "current_session active_use_case = Some sample_session"
    by (simp add: active_use_case_def)
  have lists: "detections sample_session = [sample_detection]"
    "video_clips sample_session = []" "analyses sample_session = [sample_analysis LOW]"
    by (simp_all add: sample_session_def)
  show ?thesis
    using session_mutators_frame
            [of idle_use_case sample_detection sample_clip "sample_analysis HIGH" 9 sample_session]
          session_mutators_frame
            [of active_use_case sample_detection sample_clip "sample_analysis HIGH" 9 sample_session]
          idle active lists
    by simp
qed


section \<open>The cooldown of the detection gate\<close>

lemma process_frame_cooldown [simp]:
  "detection_cooldown (snd (process_frame call self)) = detection_cooldown self"
  by (simp add: process_frame_def Let_def split: option.splits prod.splits bool.splits)

lemma process_frame_rejected:
  "fst (process_frame call self) = [] \<Longrightarrow>
   last_detection_time (snd (process_frame call self)) = last_detection_time self"
  by (auto simp add: process_frame_def Let_def split: option.splits prod.splits bool.splits if_splits)

lemma process_frame_admitted:
  assumes "fst (process_frame call self) \<noteq> []"
  shows "last_detection_time (snd (process_frame call self)) = Some (now_stamp call)"
    and "should_process_detection (now_check call) self"
    and "\<exists>dets. detect_persons call = Some dets
           \<and> fst (process_frame call self) = filter (is_detection_valid call) dets"
  using assms
  by (auto simp add: process_frame_def Let_def split: option.splits prod.splits bool.splits if_splits)

lemma admission_times_spaced:
  assumes "list_all clock_ok calls" and "0 \<le> detection_cooldown self"
  shows "sorted_wrt (\<lambda>s t. t - s \<ge> detection_cooldown self) (admission_times calls self)
         \<and> (\<forall>l t. last_detection_time self = Some l \<and> t \<in> set (admission_times calls self)
               \<longrightarrow> t - l \<ge> detection_cooldown self)"
  using assms
proof (induction calls arbitrary: self)
  case Nil
  then show ?case by simp
next
  case (Cons call calls)
  obtain admitted self1 where pf: "process_frame call self = (admitted, self1)"
    by (cases "process_frame call self")
  have cd: "detection_cooldown self1 = detection_cooldown self"
    using process_frame_cooldown [of call self] pf by simp
  have ok: "list_all clock_ok calls"
    using Cons.prems(1) by simp
  have clk: "now_check call \<le> now_stamp call"
    using Cons.prems(1) by (simp add: clock_ok_def)
  have IH: "sorted_wrt (\<lambda>s t. t - s \<ge> detection_cooldown self) (admission_times calls self1)
         \<and> (\<forall>l t. last_detection_time self1 = Some l \<and> t \<in> set (admission_times calls self1)
               \<longrightarrow> t - l \<ge> detection_cooldown self)"
    using Cons.IH [of self1] ok Cons.prems(2) cd by simp
  show ?case
  proof (cases "admitted = []")
    case True
    then have "last_detection_time self1 = last_detection_time self"
      using process_frame_rejected [of call self] pf by simp
    then show ?thesis using IH pf True by simp
  next
    case False
    then have adm: "fst (process_frame call self) \<noteq> []" using pf by simp
    have last1: "last_detection_time self1 = Some (now_stamp call)"
      using process_frame_admitted(1) [OF adm] pf by simp
    have sp: "should_process_detection (now_check call) self"
      using process_frame_admitted(2) [OF adm] .
    have times: "admission_times (call # calls) self = now_stamp call # admission_times calls self1"
      using pf False last1 by simp
    have after: "\<forall>t \<in> set (admission_times calls self1). t - now_stamp call \<ge> detection_cooldown self"
      using IH last1 by simp
    have before: "t - l \<ge> detection_cooldown self"
      if l: "last_detection_time self = Some l"
        and t: "t \<in> set (now_stamp call # admission_times calls self1)"
      for l t
    proof -
      have chk: "now_check call - l \<ge> detection_cooldown self"
        using sp l by (simp add: should_process_detection_def Let_def)
      show ?thesis
      proof (cases "t = now_stamp call")
        case True
        then show ?thesis using chk clk by linarith
      next
        case False
        then have "t \<in> set (admission_times calls self1)" using t by simp
        then have "t - now_stamp call \<ge> detection_cooldown self" using after by blast
        then show ?thesis using chk clk Cons.prems(2) by linarith
      qed
    qed
    show ?thesis
      unfolding times using IH after before by (simp del: admission_times.simps)
  qed
qed

text \<open>
  C7. For every sequence of calls of \<open>process_frame\<close> in which the clock does not run
  backwards within a call, and a cooldown that is not negative (5 seconds by default), any
  two admissions are stamped at least the cooldown apart. A call admits a batch only
  when no admission has occurred yet or the time since the last admission is at least the
  cooldown; an admission returns the valid detections and sets the last-admission time;
  a call whose list of valid detections is empty, or whose cooldown has not elapsed,
  returns the empty list.
\<close>

theorem detection_gate_cooldown:
  assumes "list_all clock_ok calls" and "0 \<le> detection_cooldown self"
  shows "sorted_wrt (\<lambda>s t. t - s \<ge> detection_cooldown self) (admission_times calls self)
    \<and> (fst (process_frame call self) \<noteq> [] \<longrightarrow>
           (last_detection_time self = None
            \<or> (\<exists>l. last_detection_time self = Some l \<and> now_check call - l \<ge> detection_cooldown self))
           \<and> last_detection_time (snd (process_frame call self)) = Some (now_stamp call)
           \<and> (\<exists>dets. detect_persons call = Some dets
                \<and> fst (process_frame call self) = filter (is_detection_valid call) dets))
    \<and> (detect_persons call = Some dets
         \<and> (filter (is_detection_valid call) dets = []
            \<or> (\<exists>l. last_detection_time self = Some l \<and> now_check call - l < detection_cooldown self))
         \<longrightarrow> process_frame call self = ([], self))
    \<and> detection_cooldown (PersonDetectionUseCase_init repo) = 5 * 1000000
    \<and> last_detection_time (PersonDetectionUseCase_init repo) = None"
proof -
  have spaced: "sorted_wrt (\<lambda>s t. t - s \<ge> detection_cooldown self) (admission_times calls self)"
    using admission_times_spaced [OF assms] by simp
  have admitted: "(last_detection_time self = None
            \<or> (\<exists>l. last_detection_time self = Some l \<and> now_check call - l \<ge> detection_cooldown self))
           \<and> last_detection_time (snd (process_frame call self)) = Some (now_stamp call)
           \<and> (\<exists>dets. detect_persons call = Some dets
                \<and> fst (process_frame call self) = filter (is_detection_valid call) dets)"
    if adm: "fst (process_frame call self) \<noteq> []"
  proof -
    have "should_process_detection (now_check call) self"
      using process_frame_admitted(2) [OF adm] .
    then have "last_detection_time self = None
        \<or> (\<exists>l. last_detection_time self = Some l \<and> now_check call - l \<ge> detection_cooldown self)"
      by (cases "last_detection_time self") (simp_all add: should_process_detection_def Let_def)
    then show ?thesis
      using process_frame_admitted(1,3) [OF adm] by simp
  qed
  have rejected: "process_frame call self = ([], self)"
    if "detect_persons call = Some dets"
      and "filter (is_detection_valid call) dets = []
           \<or> (\<exists>l. last_detection_time self = Some l \<and> now_check call - l < detection_cooldown self)"
    using that by (auto simp add: process_frame_def should_process_detection_def Let_def)
  have init: "detection_cooldown (PersonDetectionUseCase_init repo) = 5 * 1000000
         \<and> last_detection_time (PersonDetectionUseCase_init repo) = None"
    by (simp add: PersonDetectionUseCase_init_def)
  show ?thesis
    using spaced admitted rejected init by blast
qed

lemma sample_first_call:
  "process_frame (sample_call 0 1) (PersonDetectionUseCase_init []) =
     ([sample_detection],
      \<lparr>detection_repository = [sample_detection], last_detection_time = Some 1,
       detection_cooldown = 5000000\<rparr>)"
  by (simp add: process_frame_def sample_call_def PersonDetectionUseCase_init_def
      should_process_detection_def Let_def)

lemma sample_second_call:
  "process_frame (sample_call 2000000 2000001)
     \<lparr>detection_repository = [sample_detection], last_detection_time = Some 1,
      detection_cooldown = 5000000\<rparr> =
     ([], \<lparr>detection_repository = [sample_detection], last_detection_time = Some 1,
           detection_cooldown = 5000000\<rparr>)"
  by (simp add: process_frame_def sample_call_def should_process_detection_def Let_def)

lemma sample_third_call:
  "process_frame (sample_call 5000001 5000002)
     \<lparr>detection_repository = [sample_detection], last_detection_time = Some 1,
      detection_cooldown = 5000000\<rparr> =
     ([sample_detection],
      \<lparr>detection_repository = [sample_detection, sample_detection],
       last_detection_time = Some 5000002, detection_cooldown = 5000000\<rparr>)"
  by (simp add: process_frame_def sample_call_def should_process_detection_def Let_def)

lemma sample_admission_times:
  "admission_times [sample_call 0 1, sample_call 2000000 2000001, sample_call 5000001 5000002]
     (PersonDetectionUseCase_init []) = [1, 5000002]"
  by (simp add: sample_first_call sample_second_call sample_third_call)

theorem detection_gate_cooldown_witness:
  "list_all clock_ok [sample_call 0 1, sample_call 2000000 2000001, sample_call 5000001 5000002]
   \<and> 0 \<le> detection_cooldown (PersonDetectionUseCase_init [])
   \<and> admission_times [sample_call 0 1, sample_call 2000000 2000001, sample_call 5000001 5000002]
        (PersonDetectionUseCase_init []) = [1, 5000002]
   \<and> sorted_wrt (\<lambda>s t. t - s \<ge> detection_cooldown (PersonDetectionUseCase_init []))
        (admission_times [sample_call 0 1, sample_call 2000000 2000001, sample_call 5000001 5000002]
           (PersonDetectionUseCase_init []))
   \<and> fst (process_frame (sample_call 0 1) (PersonDetectionUseCase_init [])) \<noteq> []
   \<and> last_detection_time (snd (process_frame (sample_call 0 1) (PersonDetectionUseCase_init [])))
       = Some (now_stamp (sample_call 0 1))
   \<and> process_frame (sample_call 2000000 2000001)
        (snd (process_frame (sample_call 0 1) (PersonDetectionUseCase_init [])))
      = ([], snd (process_frame (sample_call 0 1) (PersonDetectionUseCase_init [])))"
proof -
  let ?calls = "[sample_call 0 1, sample_call 2000000 2000001, sample_call 5000001 5000002]"
  let ?init = "PersonDetectionUseCase_init []"
  let ?st1 = "snd (process_frame (sample_call 0 1) ?init)"
  have clock: "list_all clock_ok ?calls"
    by (simp add: clock_ok_def sample_call_def)
  have cd: "0 \<le> detection_cooldown ?init"
    by (simp add: PersonDetectionUseCase_init_def)
  have st1: "last_detection_time ?st1 = Some 1" "detection_cooldown ?st1 = 5000000"
    by (simp_all add: sample_first_call)
  have cd1: "0 \<le> detection_cooldown ?st1"
    unfolding st1 by simp
  have first: "fst (process_frame (sample_call 0 1) ?init) \<noteq> []"
    by (simp add: sample_first_call)
  have chk: "now_check (sample_call 2000000 2000001) = 2000000"
    and dp: "detect_persons (sample_call 2000000 2000001) = Some [sample_detection]"
    by (simp_all add: sample_call_def)
  have second: "detect_persons (sample_call 2000000 2000001) = Some [sample_detection]
     \<and> (filter (is_detection_valid (sample_call 2000000 2000001)) [sample_detection] = []
        \<or> (\<exists>l. last_detection_time ?st1 = Some l
              \<and> now_check (sample_call 2000000 2000001) - l < detection_cooldown ?st1))"
    unfolding st1 chk dp by simp
  note a = detection_gate_cooldown [OF clock cd, of "sample_call 0 1" "[]" "[]"]
  note b = detection_gate_cooldown
    [OF clock cd1, of "sample_call 2000000 2000001" "[sample_detection]" "[]"]
  have spaced: "sorted_wrt (\<lambda>s t. t - s \<ge> detection_cooldown ?init) (admission_times ?calls ?init)"
    using a by (rule conjunct1)
  have adm: "last_detection_time ?st1 = Some (now_stamp (sample_call 0 1))"
    using a first by blast
  have rej: "process_frame (sample_call 2000000 2000001) ?st1 = ([], ?st1)"
    using b second by blast
  show ?thesis
    using clock cd sample_admission_times spaced first adm rej by blast
qed


section \<open>The fallback keyword classifier\<close>

lemma str_contains_iff: "str_contains needle hay = (\<exists>before after. hay = before @ needle @ after)"
proof (induction hay)
  case Nil
  then show ?case by auto
next
  case (Cons c cs)
  have "(\<exists>before after. c # cs = before @ needle @ after)
      = ((\<exists>after. c # cs = needle @ after) \<or> (\<exists>before after. cs = before @ needle @ after))"
  proof
    assume "\<exists>before after. c # cs = before @ needle @ after"
    then obtain before after where eq: "c # cs = before @ needle @ after" by blast
    show "(\<exists>after. c # cs = needle @ after) \<or> (\<exists>before after. cs = before @ needle @ after)"
    proof (cases before)
      case Nil
      then show ?thesis using eq by auto
    next
      case (Cons b bs)
      then have "cs = bs @ needle @ after" using eq by simp
      then show ?thesis by blast
    qed
  next
    assume "(\<exists>after. c # cs = needle @ after) \<or> (\<exists>before after. cs = before @ needle @ after)"
    then show "\<exists>before after. c # cs = before @ needle @ after"
    proof
      assume "\<exists>after. c # cs = needle @ after"
      then obtain after where "c # cs = [] @ needle @ after" by auto
      then show ?thesis by blast
    next
      assume "\<exists>before after. cs = before @ needle @ after"
      then obtain before after where "c # cs = (c # before) @ needle @ after" by auto
      then show ?thesis by blast
    qed
  qed
  then show ?case using Cons.IH by (simp add: prefix_def)
qed

lemma any_in_lower: "any_in vocabulary (py_lower text) = contains_phrase vocabulary text"
  by (simp add: any_in_def contains_phrase_def list_ex_iff str_contains_iff)

lemma fallback_refines_spec: "fallback_keyword_evaluation text = keyword_classifier_spec text"
  unfolding fallback_keyword_evaluation_def keyword_classifier_spec_def Let_def any_in_lower
  by (simp add: safe_indicators_def critical_keywords_def high_keywords_def
      negative_context_def medium_keywords_def)

lemma py_lower_append: "py_lower (a @ b) = py_lower a @ py_lower b"
  by (simp add: py_lower_def)

lemma py_lower_weapon: "py_lower ''weapon'' = ''weapon''"
  by code_simp

lemma weapon_is_critical:
  "contains_phrase [''weapon'', ''violence'', ''attack'', ''break-in'', ''forced entry'']
     (before @ ''weapon'' @ after)"
proof -
  have "py_lower (before @ ''weapon'' @ after) = py_lower before @ ''weapon'' @ py_lower after"
    by (simp only: py_lower_append py_lower_weapon)
  moreover have "''weapon''
      \<in> set [''weapon'', ''violence'', ''attack'', ''break-in'', ''forced entry'']"
    by simp
  ultimately show ?thesis
    unfolding contains_phrase_def by blast
qed

text \<open>
  C5 as stated fails. A text that contains ``weapon'' does not yield CRITICAL when it
  also contains a no-concern phrase. The negation that withholds HIGH is not one near the
  keyword: it is one of three fixed phrases anywhere in the text, so that ``no trespassing
  observed'' yields HIGH, and a text with ``not suspicious'' in one place and
  ``unauthorized entry'' in another does not.
\<close>

theorem fallback_keyword_counterexample:
  "fallback_keyword_evaluation ''the room appears normal but a weapon lies on the table'' = LOW
   \<and> fallback_keyword_evaluation ''no trespassing observed'' = HIGH
   \<and> fallback_keyword_evaluation ''not suspicious at gate A but unauthorized entry at gate B'' = LOW"
  by code_simp

text \<open>
  C5, amended. The fallback classifier is this cascade over the text in lower case: LOW
  when it contains one of the no-concern phrases, which are checked first; otherwise
  CRITICAL when it contains ``weapon'', ``violence'', ``attack'', ``break-in'' or
  ``forced entry''; otherwise HIGH when it contains ``suspicious'', ``unauthorized'' or
  ``trespassing'' and none of the phrases ``no suspicious'', ``not suspicious'' and
  ``no unauthorized'' occurs anywhere in it; otherwise MEDIUM when it contains ``unusual'',
  ``loitering'' or ``investigation''; otherwise LOW. The text ``no security concerns
  detected'' gives LOW and the text ``weapon'' gives CRITICAL; a text that contains
  ``weapon'' gives CRITICAL unless it contains a no-concern phrase, and then LOW. Each
  keyword of the other two steps, alone, gives the level of its step; a negated phrase
  lets the text fall through to the MEDIUM step.
\<close>

theorem fallback_keyword_cascade:
  "fallback_keyword_evaluation text = keyword_classifier_spec text
   \<and> fallback_keyword_evaluation ''no security concerns detected'' = LOW
   \<and> fallback_keyword_evaluation ''weapon'' = CRITICAL
   \<and> fallback_keyword_evaluation (before @ ''weapon'' @ after) =
       (if contains_phrase
             [''no security concerns detected'', ''normal scene'',
              ''no people or suspicious activity visible'', ''no suspicious activity'',
              ''all frames show normal'', ''normal activity'', ''no threats detected'',
              ''appears normal''] (before @ ''weapon'' @ after)
        then LOW else CRITICAL)
   \<and> fallback_keyword_evaluation ''violence'' = CRITICAL
   \<and> fallback_keyword_evaluation ''attack'' = CRITICAL
   \<and> fallback_keyword_evaluation ''break-in'' = CRITICAL
   \<and> fallback_keyword_evaluation ''forced entry'' = CRITICAL
   \<and> fallback_keyword_evaluation ''suspicious'' = HIGH
   \<and> fallback_keyword_evaluation ''unauthorized'' = HIGH
   \<and> fallback_keyword_evaluation ''trespassing'' = HIGH
   \<and> fallback_keyword_evaluation ''A Suspicious person waits near the fence'' = HIGH
   \<and> fallback_keyword_evaluation ''no unauthorized access, but a person is loitering'' = MEDIUM
   \<and> fallback_keyword_evaluation ''not suspicious'' = LOW
   \<and> fallback_keyword_evaluation ''unusual'' = MEDIUM
   \<and> fallback_keyword_evaluation ''loitering'' = MEDIUM
   \<and> fallback_keyword_evaluation ''investigation'' = MEDIUM
   \<and> fallback_keyword_evaluation ''a person walks by'' = LOW
   \<and> fallback_keyword_evaluation [] = LOW"
proof -
  have general: "fallback_keyword_evaluation (before @ ''weapon'' @ after) =
       (if contains_phrase
             [''no security concerns detected'', ''normal scene'',
              ''no people or suspicious activity visible'', ''no suspicious activity'',
              ''all frames show normal'', ''normal activity'', ''no threats detected'',
              ''appears normal''] (before @ ''weapon'' @ after)
        then LOW else CRITICAL)"
    unfolding fallback_refines_spec keyword_classifier_spec_def
    using weapon_is_critical [of before after] by simp
  have examples:
    "fallback_keyword_evaluation ''no security concerns detected'' = LOW"
    "fallback_keyword_evaluation ''weapon'' = CRITICAL"
    "fallback_keyword_evaluation ''violence'' = CRITICAL"
    "fallback_keyword_evaluation ''attack'' = CRITICAL"
    "fallback_keyword_evaluation ''break-in'' = CRITICAL"
    "fallback_keyword_evaluation ''forced entry'' = CRITICAL"
    "fallback_keyword_evaluation ''suspicious'' = HIGH"
    "fallback_keyword_evaluation ''unauthorized'' = HIGH"
    "fallback_keyword_evaluation ''trespassing'' = HIGH"
    "fallback_keyword_evaluation ''A Suspicious person waits near the fence'' = HIGH"
    "fallback_keyword_evaluation ''no unauthorized access, but a person is loitering'' = MEDIUM"
    "fallback_keyword_evaluation ''not suspicious'' = LOW"
    "fallback_keyword_evaluation ''unusual'' = MEDIUM"
    "fallback_keyword_evaluation ''loitering'' = MEDIUM"
    "fallback_keyword_evaluation ''investigation'' = MEDIUM"
    "fallback_keyword_evaluation ''a person walks by'' = LOW"
    "fallback_keyword_evaluation [] = LOW"
    by code_simp+
  show ?thesis
    using fallback_refines_spec general examples by (intro conjI)
qed


section \<open>Retries of the threat classification\<close>

lemma upt3: "[0..<3] = [0, 1, 2]"
  by (simp add: upt_rec)

lemma retry_loop_first_ok:
  "is_ok (post 60) \<Longrightarrow> retry_loop post 3 [0..<3] = (Returned (reply_level (post 60)), [60])"
  unfolding upt3 by (cases "post 60") (simp_all add: is_ok_def reply_level_def)

lemma retry_loop_second_ok:
  "\<not> is_ok (post 60) \<Longrightarrow> is_ok (post 90) \<Longrightarrow>
   retry_loop post 3 [0..<3] = (Returned (reply_level (post 90)), [60, 90])"
  unfolding upt3 by (cases "post 60"; cases "post 90") (simp_all add: is_ok_def reply_level_def)

lemma retry_loop_third:
  "\<not> is_ok (post 60) \<Longrightarrow> \<not> is_ok (post 90) \<Longrightarrow>
   retry_loop post 3 [0..<3] =
     ((case post 120 of
         Reply status_code response_text \<Rightarrow>
           if status_code = 200 then Returned (map_threat_response response_text) else Broke
       | Timeout \<Rightarrow> Broke
       | OtherError \<Rightarrow> Raised), [60, 90, 120])"
  unfolding upt3 by (cases "post 60"; cases "post 90"; cases "post 120") (simp_all add: is_ok_def)

text \<open>
  C4 as stated fails: an error other than a timeout does not abort the retries. With a
  backend whose first attempt fails with such an error and whose second attempt answers,
  the second attempt is made and its answer is the result.
\<close>

theorem retry_after_error_counterexample:
  "flaky_backend 60 = OtherError
   \<and> evaluate_threat_level flaky_backend ''a weapon is visible'' = (Inr HIGH, [60, 90])"
  by code_simp

text \<open>
  C4, amended. Classification makes at most three backend attempts, with timeouts 60, 90
  and 120 seconds in that order. An attempt that does not answer with status 200 (a
  timeout, any other error, or another status) is followed by the next attempt while one
  remains; an answer with status 200 ends the attempts and gives the level. When the third
  attempt fails with an error other than a timeout, the result is that of the keyword
  fallback classifier. No exception leaves the function.
\<close>

theorem evaluate_threat_level_retry:
  "(\<exists>level. fst (evaluate_threat_level post text) = Inr level)
   \<and> prefix (snd (evaluate_threat_level post text)) [60, 90, 120]
   \<and> snd (evaluate_threat_level post text) \<noteq> []
   \<and> (is_ok (post 60) \<longrightarrow>
        evaluate_threat_level post text = (Inr (reply_level (post 60)), [60]))
   \<and> (\<not> is_ok (post 60) \<and> is_ok (post 90) \<longrightarrow>
        evaluate_threat_level post text = (Inr (reply_level (post 90)), [60, 90]))
   \<and> (\<not> is_ok (post 60) \<and> \<not> is_ok (post 90) \<longrightarrow>
        snd (evaluate_threat_level post text) = [60, 90, 120])
   \<and> (\<not> is_ok (post 60) \<and> \<not> is_ok (post 90) \<and> is_ok (post 120) \<longrightarrow>
        fst (evaluate_threat_level post text) = Inr (reply_level (post 120)))
   \<and> (\<not> is_ok (post 60) \<and> \<not> is_ok (post 90) \<and> post 120 = OtherError \<longrightarrow>
        fst (evaluate_threat_level post text) = Inr (fallback_keyword_evaluation text))"
proof (cases "is_ok (post 60)")
  case True
  then show ?thesis
    by (simp add: evaluate_threat_level_def retry_loop_first_ok del: retry_loop.simps)
next
  case n60: False
  show ?thesis
  proof (cases "is_ok (post 90)")
    case True
    then show ?thesis using n60
      by (simp add: evaluate_threat_level_def retry_loop_second_ok del: retry_loop.simps)
  next
    case n90: False
    show ?thesis using n60 n90
      by (cases "post 120")
        (simp_all add: evaluate_threat_level_def retry_loop_third is_ok_def reply_level_def
          del: retry_loop.simps)
  qed
qed

theorem evaluate_threat_level_retry_witness:
  "is_ok (prompt_backend 60)
   \<and> evaluate_threat_level prompt_backend ''a weapon is visible'' = (Inr CRITICAL, [60])
   \<and> \<not> is_ok (flaky_backend 60) \<and> is_ok (flaky_backend 90)
   \<and> evaluate_threat_level flaky_backend ''a weapon is visible'' = (Inr HIGH, [60, 90])
   \<and> \<not> is_ok (failing_backend 60) \<and> \<not> is_ok (failing_backend 90)
   \<and> failing_backend 120 = OtherError
   \<and> evaluate_threat_level failing_backend ''a weapon is visible'' = (Inr CRITICAL, [60, 90, 120])"
proof -
  have p: "is_ok (prompt_backend 60)" "reply_level (prompt_backend 60) = CRITICAL"
    by code_simp+
  have f: "\<not> is_ok (flaky_backend 60)" "is_ok (flaky_backend 90)"
    "reply_level (flaky_backend 90) = HIGH"
    by code_simp+
  have e: "\<not> is_ok (failing_backend 60)" "\<not> is_ok (failing_backend 90)"
    "failing_backend 120 = OtherError"
    by (simp_all add: failing_backend_def is_ok_def)
  have w: "fallback_keyword_evaluation ''a weapon is visible'' = CRITICAL"
    by code_simp
  have r1: "evaluate_threat_level prompt_backend ''a weapon is visible'' = (Inr CRITICAL, [60])"
    using evaluate_threat_level_retry [of prompt_backend "''a weapon is visible''"] p by simp
  have r2: "evaluate_threat_level flaky_backend ''a weapon is visible'' = (Inr HIGH, [60, 90])"
    using evaluate_threat_level_retry [of flaky_backend "''a weapon is visible''"] f by simp
  have r3: "evaluate_threat_level failing_backend ''a weapon is visible''
      = (Inr CRITICAL, [60, 90, 120])"
    using evaluate_threat_level_retry [of failing_backend "''a weapon is visible''"] e w
    by (simp add: prod_eq_iff)
  show ?thesis using p f e r1 r2 r3 by blast
qed

text \<open>
  When all three attempts time out the loop is left by \<open>break\<close>, and the function returns
  LOW from its last line without calling the keyword classifier, although the comment at
  the \<open>break\<close> announces the fallback and \<open>extract_keywords\<close> calls its own fallback
  at that point.
\<close>

lemma evaluate_threat_level_timeouts_exhausted:
  "evaluate_threat_level timeout_backend ''a weapon is visible'' = (Inr LOW, [60, 90, 120])
   \<and> fallback_keyword_evaluation ''a weapon is visible'' = CRITICAL"
  by code_simp


section \<open>The fallback of the consolidation\<close>

lemma py_join_contains:
  "part \<in> set parts \<Longrightarrow> \<exists>before after. py_join sep parts = before @ part @ after"
proof (induction sep parts rule: py_join.induct)
  case (1 sep)
  then show ?case by simp
next
  case (2 sep p)
  then have "py_join sep [p] = [] @ part @ []" by simp
  then show ?case by blast
next
  case (3 sep p q ps)
  show ?case
  proof (cases "part = p")
    case True
    then have "py_join sep (p # q # ps) = [] @ part @ (sep @ py_join sep (q # ps))" by simp
    then show ?thesis by blast
  next
    case False
    then have "part \<in> set (q # ps)" using 3(2) by simp
    then obtain before after where "py_join sep (q # ps) = before @ part @ after"
      using 3(1) by blast
    then have "py_join sep (p # q # ps) = (p @ sep @ before) @ part @ after" by simp
    then show ?thesis by blast
  qed
qed

lemma contains_longer:
  "txt2 = before @ part @ after \<Longrightarrow> length part \<le> length txt2"
  by simp

lemma labelled_member:
  assumes "summary \<in> set batch_summaries"
  shows "\<exists>i. ''Batch '' @ str_nat (i + 1) @ '': '' @ summary
           \<in> set (map (\<lambda>(i, summary). ''Batch '' @ str_nat (i + 1) @ '': '' @ summary)
                    (enumerate 0 batch_summaries))"
proof -
  obtain i where "i < length batch_summaries" "batch_summaries ! i = summary"
    using assms by (auto simp add: in_set_conv_nth)
  then have "(i, summary) \<in> set (enumerate 0 batch_summaries)"
    by (simp add: in_set_enumerate_eq)
  then show ?thesis by force
qed

lemma combined_contains:
  assumes "summary \<in> set batch_summaries"
  shows "\<exists>before after.
           py_join sep (map (\<lambda>(i, summary). ''Batch '' @ str_nat (i + 1) @ '': '' @ summary)
                 (enumerate 0 batch_summaries)) = before @ summary @ after"
proof -
  obtain i where "''Batch '' @ str_nat (i + 1) @ '': '' @ summary
           \<in> set (map (\<lambda>(i, summary). ''Batch '' @ str_nat (i + 1) @ '': '' @ summary)
                    (enumerate 0 batch_summaries))"
    using labelled_member [OF assms] by blast
  then obtain before after where
    "py_join sep (map (\<lambda>(i, summary). ''Batch '' @ str_nat (i + 1) @ '': '' @ summary)
                 (enumerate 0 batch_summaries))
       = before @ (''Batch '' @ str_nat (i + 1) @ '': '' @ summary) @ after"
    using py_join_contains by blast
  then have "py_join sep (map (\<lambda>(i, summary). ''Batch '' @ str_nat (i + 1) @ '': '' @ summary)
                 (enumerate 0 batch_summaries))
       = (before @ ''Batch '' @ str_nat (i + 1) @ '': '') @ summary @ after"
    by simp
  then show ?thesis by blast
qed

lemma headed_contains:
  assumes "\<exists>before after. body = before @ summary @ after" and "heading \<noteq> []"
  shows "str_contains summary (heading @ body) \<and> length summary < length (heading @ body)"
proof -
  obtain before after where b: "body = before @ summary @ after" using assms(1) by blast
  then have "heading @ body = (heading @ before) @ summary @ after" by simp
  then have "str_contains summary (heading @ body)"
    unfolding str_contains_iff by blast
  moreover have "length summary < length (heading @ body)"
    using b assms(2) by (cases heading) simp_all
  ultimately show ?thesis by simp
qed

text \<open>
  C9 as stated fails: when the consolidation request fails, the result is never the
  summary of the first batch; it is all the batch summaries under a heading.
\<close>

theorem consolidate_first_summary_counterexample:
  "consolidate_analyses (Reply 500 []) [''Person enters'', ''Person leaves'']
     = Inr ''Multiple batch summaries:\<newline>Batch 1: Person enters\<newline>\<newline>Batch 2: Person leaves''
   \<and> consolidate_analyses (Reply 500 []) [''Person enters'', ''Person leaves'']
     \<noteq> Inr ''Person enters''"
  by code_simp

text \<open>
  C9, amended. Consolidation never raises. When the consolidation request fails (a status
  other than 200, a blank reply, or an exception), the result is a concatenation of all
  batch summaries under a heading: after a reply, the summaries labelled ``Batch i: '' and
  separated by blank lines; after an exception, the summaries one per line. Every batch
  summary occurs in the result, and the result is longer than any one of them, so the
  analysis is not discarded.
\<close>

theorem consolidate_analyses_fallback:
  "(\<exists>result. consolidate_analyses reply batch_summaries = Inr result)
   \<and> (consolidation_failed reply \<and> summary \<in> set batch_summaries \<longrightarrow>
        (\<exists>result. consolidate_analyses reply batch_summaries = Inr result
           \<and> str_contains summary result \<and> length summary < length result))
   \<and> (consolidation_failed reply \<and> reply \<noteq> Timeout \<and> reply \<noteq> OtherError \<longrightarrow>
        consolidate_analyses reply batch_summaries =
          Inr (''Multiple batch summaries:'' @ [newline]
               @ py_join [newline, newline]
                   (map (\<lambda>(i, summary). ''Batch '' @ str_nat (i + 1) @ '': '' @ summary)
                      (enumerate 0 batch_summaries))))
   \<and> (reply = Timeout \<or> reply = OtherError \<longrightarrow>
        consolidate_analyses reply batch_summaries =
          Inr (''Batch summaries (consolidation failed):'' @ [newline]
               @ py_join [newline] batch_summaries))"
proof -
  let ?combined = "py_join [newline, newline]
                   (map (\<lambda>(i, summary). ''Batch '' @ str_nat (i + 1) @ '': '' @ summary)
                      (enumerate 0 batch_summaries))"
  let ?h1 = "''Multiple batch summaries:'' @ [newline]"
  let ?h2 = "''Batch summaries (consolidation failed):'' @ [newline]"
  have total: "\<exists>result. consolidate_analyses reply batch_summaries = Inr result"
    by (cases reply) (simp_all add: consolidate_analyses_def Let_def)
  have shape1: "consolidate_analyses reply batch_summaries = Inr (?h1 @ ?combined)"
    if "consolidation_failed reply" "reply \<noteq> Timeout" "reply \<noteq> OtherError"
    using that by (cases reply) (auto simp add: consolidate_analyses_def consolidation_failed_def Let_def)
  have shape2: "consolidate_analyses reply batch_summaries = Inr (?h2 @ py_join [newline] batch_summaries)"
    if "reply = Timeout \<or> reply = OtherError"
    using that by (auto simp add: consolidate_analyses_def Let_def)
  have kept: "\<exists>result. consolidate_analyses reply batch_summaries = Inr result
           \<and> str_contains summary result \<and> length summary < length result"
    if failed: "consolidation_failed reply" and mem: "summary \<in> set batch_summaries"
  proof (cases "reply = Timeout \<or> reply = OtherError")
    case True
    have "str_contains summary (?h2 @ py_join [newline] batch_summaries)
        \<and> length summary < length (?h2 @ py_join [newline] batch_summaries)"
      using headed_contains [OF py_join_contains [OF mem]] by blast
    then show ?thesis using shape2 [OF True] by simp
  next
    case False
    have "str_contains summary (?h1 @ ?combined) \<and> length summary < length (?h1 @ ?combined)"
      using headed_contains [OF combined_contains [OF mem]] by blast
    then show ?thesis using shape1 [OF failed] False by simp
  qed
  show ?thesis
    using total kept shape1 shape2 by (simp only: append_assoc) blast
qed

theorem consolidate_analyses_fallback_witness:
  "consolidation_failed (Reply 500 [])
   \<and> ''Person leaves'' \<in> set [''Person enters'', ''Person leaves'']
   \<and> (\<exists>result. consolidate_analyses (Reply 500 []) [''Person enters'', ''Person leaves''] = Inr result
         \<and> str_contains ''Person leaves'' result \<and> length ''Person leaves'' < length result)
   \<and> consolidate_analyses OtherError [''Person enters'', ''Person leaves'']
       = Inr (''Batch summaries (consolidation failed):'' @ [newline]
               @ py_join [newline] [''Person enters'', ''Person leaves''])"
proof -
  have failed: "consolidation_failed (Reply 500 [])"
    by (simp add: consolidation_failed_def)
  have mem: "''Person leaves'' \<in> set [''Person enters'', ''Person leaves'']"
    by simp
  note a = consolidate_analyses_fallback
    [of "Reply 500 []" "[''Person enters'', ''Person leaves'']" "''Person leaves''"]
  note b = consolidate_analyses_fallback
    [of OtherError "[''Person enters'', ''Person leaves'']" "''Person leaves''"]
  have kept: "\<exists>result. consolidate_analyses (Reply 500 []) [''Person enters'', ''Person leaves''] = Inr result
         \<and> str_contains ''Person leaves'' result \<and> length ''Person leaves'' < length result"
    using a failed mem by blast
  have exc: "consolidate_analyses OtherError [''Person enters'', ''Person leaves'']
       = Inr (''Batch summaries (consolidation failed):'' @ [newline]
               @ py_join [newline] [''Person enters'', ''Person leaves''])"
    using b by blast
  show ?thesis using failed mem kept exc by blast
qed


section \<open>A clip without frames\<close>

lemma analyze_video_no_frames:
  "extract_frames env (file_path clip) = [] \<Longrightarrow>
   analyze_video env clip = create_failed_analysis (clock_now env) clip ''Failed to extract frames''"
  by (simp add: analyze_video_def)

text \<open>
  C3, on the code. For a clip from which no frame is extracted, \<open>analyze_video\<close> returns a
  failed analysis with level LOW and confidence 0, and its keyword list is empty: the
  keyword \<open>analysis_failed\<close> is not in it. The other implementation of the service puts
  that keyword into its failed analysis.
\<close>

theorem analyze_video_zero_frames_keywords:
  "extract_frames no_frames_env (file_path sample_clip) = []
   \<and> analyze_video no_frames_env sample_clip =
       \<lparr>video_clip = sample_clip,
        analysis_text = ''Analysis failed: Failed to extract frames'',
        threat_level = LOW, confidence = 0, keywords = [], timestamp = 42\<rparr>
   \<and> ''analysis_failed'' \<notin> set (keywords (analyze_video no_frames_env sample_clip))
   \<and> keywords (gemma_create_failed_analysis 42 sample_clip ''Failed to extract frames'')
       = [''analysis_failed'']"
proof -
  have none: "extract_frames no_frames_env (file_path sample_clip) = []"
    by (simp add: no_frames_env_def)
  have "analyze_video no_frames_env sample_clip =
      create_failed_analysis (clock_now no_frames_env) sample_clip ''Failed to extract frames''"
    using analyze_video_no_frames [OF none] .
  then have res: "analyze_video no_frames_env sample_clip =
       \<lparr>video_clip = sample_clip,
        analysis_text = ''Analysis failed: Failed to extract frames'',
        threat_level = LOW, confidence = 0, keywords = [], timestamp = 42\<rparr>"
    by (simp add: create_failed_analysis_def no_frames_env_def)
  show ?thesis
    unfolding res using none by (simp add: gemma_create_failed_analysis_def)
qed


section \<open>Payloads built from an analysis\<close>

lemma created_payload_summary:
  "payload_get (create_broadcast_notification_payload env self analysis video_path) ''summary'' dflt
     = JString (extract_summary (analysis_text analysis))"
  by (simp add: create_broadcast_notification_payload_def payload_get_def dict_get_def Let_def)

lemma created_payload_log_line:
  "broadcast_log_line (create_broadcast_notification_payload env self analysis video_path) = Inr ()"
  by (simp add: broadcast_log_line_def created_payload_summary py_len_def)

lemma created_payload_get:
  "payload_get (create_broadcast_notification_payload env self analysis video_path) ''type'' d
     = JString ''security_alert''"
  "payload_get (create_broadcast_notification_payload env self analysis video_path) ''timestamp'' d
     = JString (isoformat_now env @ ''Z'')"
  "payload_get (create_broadcast_notification_payload env self analysis video_path) ''threatLevel'' d
     = JString (py_upper (level_value (threat_level analysis)))"
  "payload_get (create_broadcast_notification_payload env self analysis video_path) ''confidence'' d
     = JFloat (float_repr env (confidence analysis))"
  "payload_get (create_broadcast_notification_payload env self analysis video_path) ''camera'' d
     = JString (extract_camera_name video_path)"
  "payload_get (create_broadcast_notification_payload env self analysis video_path) ''keywords'' d
     = JList (map JString (take 3 (keywords analysis)))"
  "payload_get (create_broadcast_notification_payload env self analysis video_path) ''server_info'' d
     = JDict [(''ip'', JString (server_ip self)), (''port'', JInt (int (notification_port self)))]"
  "\<exists>ident. payload_get (create_broadcast_notification_payload env self analysis video_path) ''id'' d
     = JString ident"
  by (simp_all add: create_broadcast_notification_payload_def payload_get_def dict_get_def Let_def)

lemma created_payload_compact:
  "compact_payload (create_broadcast_notification_payload env self analysis video_path) =
     Inr [(''type'', JString ''security_alert''),
          (''id'', payload_get (create_broadcast_notification_payload env self analysis video_path)
                     ''id'' JNull),
          (''timestamp'', JString (isoformat_now env @ ''Z'')),
          (''threatLevel'', JString (py_upper (level_value (threat_level analysis)))),
          (''confidence'', JFloat (float_repr env (confidence analysis))),
          (''summary'', JString (take 100 (extract_summary (analysis_text analysis)))),
          (''camera'', JString (extract_camera_name video_path)),
          (''keywords'', JList (map JString (take 2 (keywords analysis)))),
          (''server_info'',
             JDict [(''ip'', JString (server_ip self)),
                    (''port'', JInt (int (notification_port self)))])]"
  unfolding compact_payload_def created_payload_get(1-7) created_payload_summary
  by (simp add: py_slice_to_def take_map min_def)

lemma created_payload_message:
  "\<exists>message. broadcast_message
      (create_broadcast_notification_payload env self analysis video_path) = Inr message"
  by (simp add: broadcast_message_def created_payload_compact Let_def del: dumps.simps)


section \<open>The order of the delivery channels\<close>

lemma created_payload_broadcast:
  "fst (send_broadcast_notification net
          (create_broadcast_notification_payload env self analysis video_path))
     = Inr (broadcast_outcome env net self analysis video_path)"
  unfolding broadcast_outcome_def
  by (simp add: send_broadcast_notification_def created_payload_log_line
      split: sum.splits prod.splits)

lemma send_security_alert_shape:
  assumes "should_notify self analysis"
  shows "send_security_alert env net self analysis video_path =
     (let b = broadcast_outcome env net self analysis video_path;
          w = send_webhook_notifications net (webhook_urls self)
      in if b then (True, [(Broadcast, True)])
         else if webhook_urls self \<noteq> [] \<and> w then (True, [(Broadcast, False), (Webhooks, True)])
         else (case notification_url self of
                 None \<Rightarrow> (False, (Broadcast, False) # (if webhook_urls self \<noteq> [] then [(Webhooks, False)] else []))
               | Some url \<Rightarrow>
                   if url = [] then (False, (Broadcast, False) # (if webhook_urls self \<noteq> [] then [(Webhooks, False)] else []))
                   else (send_http_notification net url,
                         (Broadcast, False) # (if webhook_urls self \<noteq> [] then [(Webhooks, False)] else [])
                           @ [(Http, send_http_notification net url)])))"
  using assms
  by (simp add: send_security_alert_def created_payload_broadcast Let_def py_truthy_def
      split: option.splits)

lemma broadcast_on_ports_all_fail:
  "(\<And>port. socket_fails net port) \<Longrightarrow> broadcast_on_ports net message ports = (0, [])"
  by (induction ports) simp_all

lemma deaf_broadcast:
  "broadcast_outcome env deaf_network self analysis video_path = False"
proof -
  have "socket_fails deaf_network port" for port
    by (simp add: deaf_network_def)
  then have "broadcast_on_ports deaf_network message ports = (0, [])" for message ports
    using broadcast_on_ports_all_fail by blast
  then show ?thesis
    unfolding broadcast_outcome_def send_broadcast_notification_def created_payload_log_line
    by (simp split: sum.splits)
qed

lemma broadcast_on_ports_count:
  "(0 < fst (broadcast_on_ports net message ports))
     = list_ex (\<lambda>port. \<not> socket_fails net port) ports"
  by (induction ports) (auto split: prod.splits)

lemma broadcast_outcome_ports:
  "broadcast_outcome env net self analysis video_path
     = list_ex (\<lambda>port. \<not> socket_fails net port) [9999, 9998, 10000, 8888]"
proof -
  obtain message where msg: "broadcast_message
      (create_broadcast_notification_payload env self analysis video_path) = Inr message"
    using created_payload_message by blast
  obtain success_count sent where
    ports: "broadcast_on_ports net message broadcast_ports = (success_count, sent)"
    by (cases "broadcast_on_ports net message broadcast_ports")
  have "broadcast_outcome env net self analysis video_path = (0 < success_count)"
    by (simp add: broadcast_outcome_def send_broadcast_notification_def
        created_payload_log_line msg ports)
  also have "\<dots> = (0 < fst (broadcast_on_ports net message broadcast_ports))"
    using ports by simp
  also have "\<dots> = list_ex (\<lambda>port. \<not> socket_fails net port) broadcast_ports"
    by (rule broadcast_on_ports_count)
  finally show ?thesis by (simp only: broadcast_ports_def)
qed

lemma post_succeeds_iff: "post_succeeds outcome = (outcome = HttpStatus 200)"
  by (cases outcome) (simp_all add: post_succeeds_def)

lemma send_webhook_notifications_iff:
  "send_webhook_notifications net urls
     = (\<exists>i < length urls. webhook_post net i (urls ! i) = HttpStatus 200)"
proof -
  have "send_webhook_notifications net urls
      = (filter (\<lambda>(i, url). post_succeeds (webhook_post net i url)) (enumerate 0 urls) \<noteq> [])"
    by (simp add: send_webhook_notifications_def Let_def)
  also have "\<dots> = (\<exists>i url. (i, url) \<in> set (enumerate 0 urls)
                        \<and> post_succeeds (webhook_post net i url))"
    by (auto simp add: filter_empty_conv)
  also have "\<dots> = (\<exists>i < length urls. webhook_post net i (urls ! i) = HttpStatus 200)"
    by (auto simp add: in_set_enumerate_eq post_succeeds_iff)
  finally show ?thesis .
qed

lemma send_http_notification_iff:
  "send_http_notification net url = (http_post net url = HttpStatus 200)"
  by (simp add: send_http_notification_def post_succeeds_iff)

lemma webhooks_down_broadcast:
  "broadcast_outcome env webhooks_down_network self analysis video_path = False"
proof -
  have "socket_fails webhooks_down_network port" for port
    by (simp add: webhooks_down_network_def)
  then have "broadcast_on_ports webhooks_down_network message ports = (0, [])" for message ports
    using broadcast_on_ports_all_fail by blast
  then show ?thesis
    unfolding broadcast_outcome_def send_broadcast_notification_def created_payload_log_line
    by (simp split: sum.splits)
qed

lemma send_security_alert_channels:
  "(\<not> should_notify self analysis \<longrightarrow>
      send_security_alert env net self analysis video_path = (False, []))
   \<and> (should_notify self analysis \<longrightarrow>
      (\<exists>rest. snd (send_security_alert env net self analysis video_path)
          = (Broadcast, broadcast_outcome env net self analysis video_path) # rest)
      \<and> subseq (map fst (snd (send_security_alert env net self analysis video_path)))
            [Broadcast, Webhooks, Http]
      \<and> ((Webhooks, w) \<in> set (snd (send_security_alert env net self analysis video_path)) \<longrightarrow>
            (Broadcast, False) \<in> set (snd (send_security_alert env net self analysis video_path))
            \<and> w = send_webhook_notifications net (webhook_urls self))
      \<and> ((Http, h) \<in> set (snd (send_security_alert env net self analysis video_path)) \<longrightarrow>
            (Broadcast, False) \<in> set (snd (send_security_alert env net self analysis video_path))
            \<and> (Webhooks, True) \<notin> set (snd (send_security_alert env net self analysis video_path)))
      \<and> fst (send_security_alert env net self analysis video_path)
          = list_ex snd (snd (send_security_alert env net self analysis video_path))
      \<and> ((c, True) \<in> set (snd (send_security_alert env net self analysis video_path)) \<longrightarrow>
            last (snd (send_security_alert env net self analysis video_path)) = (c, True))
      \<and> fst (send_broadcast_notification net
                (create_broadcast_notification_payload env self analysis video_path))
          = Inr (broadcast_outcome env net self analysis video_path)
      \<and> snd (send_security_alert env net self analysis video_path)
          = (Broadcast, broadcast_outcome env net self analysis video_path)
            # (if \<not> broadcast_outcome env net self analysis video_path \<and> webhook_urls self \<noteq> []
               then [(Webhooks, send_webhook_notifications net (webhook_urls self))] else [])
            @ (case notification_url self of
                 None \<Rightarrow> []
               | Some url \<Rightarrow>
                   if url \<noteq> [] \<and> \<not> broadcast_outcome env net self analysis video_path
                      \<and> \<not> (webhook_urls self \<noteq> []
                            \<and> send_webhook_notifications net (webhook_urls self))
                   then [(Http, send_http_notification net url)] else [])
      \<and> (Webhooks \<in> fst ` set (snd (send_security_alert env net self analysis video_path)))
          = (\<not> broadcast_outcome env net self analysis video_path \<and> webhook_urls self \<noteq> [])
      \<and> (Http \<in> fst ` set (snd (send_security_alert env net self analysis video_path)))
          = (\<not> broadcast_outcome env net self analysis video_path
             \<and> \<not> (webhook_urls self \<noteq> [] \<and> send_webhook_notifications net (webhook_urls self))
             \<and> py_truthy (notification_url self))
      \<and> ((Http, h) \<in> set (snd (send_security_alert env net self analysis video_path)) \<longrightarrow>
            (\<exists>url. notification_url self = Some url \<and> h = send_http_notification net url)))"
proof (cases "should_notify self analysis")
  case False
  then show ?thesis by (simp add: send_security_alert_def)
next
  case True
  show ?thesis
  proof (cases "broadcast_outcome env net self analysis video_path")
    case b: True
    show ?thesis
      unfolding send_security_alert_shape [OF True, of env net video_path] created_payload_broadcast
      using True b
      by (cases "notification_url self") (simp_all add: Let_def py_truthy_def)
  next
    case b: False
    show ?thesis
    proof (cases "webhook_urls self \<noteq> [] \<and> send_webhook_notifications net (webhook_urls self)")
      case w: True
      show ?thesis
        unfolding send_security_alert_shape [OF True, of env net video_path] created_payload_broadcast
        using True b w
        by (cases "notification_url self") (auto simp add: Let_def py_truthy_def)
    next
      case w: False
      show ?thesis
        unfolding send_security_alert_shape [OF True, of env net video_path] created_payload_broadcast
        using True b w
        by (cases "notification_url self") (auto simp add: Let_def py_truthy_def)
    qed
  qed
qed

text \<open>
  C2. When the gate rejects the analysis no channel is tried and the result is false.
  Otherwise the broadcast is tried first, and its outcome is that of
  \<open>_send_broadcast_notification\<close> on the payload built from the analysis; the webhooks
  are tried next, exactly when the broadcast did not succeed and webhook URLs are
  configured; the HTTP POST to the primary URL is tried last, exactly when that URL is
  configured and neither the broadcast nor the webhooks succeeded. The channels tried and
  their outcomes are fixed by this, in the order broadcast, webhooks, HTTP; a success is
  the last attempt; and the result is the disjunction of the outcomes of the channels tried.
  The broadcast succeeds when the socket of one of the four ports opens, the webhooks when
  one of the URLs answers with status 200, the HTTP POST when it is answered with 200.
\<close>

theorem send_security_alert_order:
  "(\<not> should_notify self analysis \<longrightarrow>
      send_security_alert env net self analysis video_path = (False, []))
   \<and> (should_notify self analysis \<longrightarrow>
      (\<exists>rest. snd (send_security_alert env net self analysis video_path)
          = (Broadcast, broadcast_outcome env net self analysis video_path) # rest)
      \<and> subseq (map fst (snd (send_security_alert env net self analysis video_path)))
            [Broadcast, Webhooks, Http]
      \<and> ((Webhooks, w) \<in> set (snd (send_security_alert env net self analysis video_path)) \<longrightarrow>
            (Broadcast, False) \<in> set (snd (send_security_alert env net self analysis video_path))
            \<and> w = send_webhook_notifications net (webhook_urls self))
      \<and> ((Http, h) \<in> set (snd (send_security_alert env net self analysis video_path)) \<longrightarrow>
            (Broadcast, False) \<in> set (snd (send_security_alert env net self analysis video_path))
            \<and> (Webhooks, True) \<notin> set (snd (send_security_alert env net self analysis video_path)))
      \<and> fst (send_security_alert env net self analysis video_path)
          = list_ex snd (snd (send_security_alert env net self analysis video_path))
      \<and> ((c, True) \<in> set (snd (send_security_alert env net self analysis video_path)) \<longrightarrow>
            last (snd (send_security_alert env net self analysis video_path)) = (c, True))
      \<and> fst (send_broadcast_notification net
                (create_broadcast_notification_payload env self analysis video_path))
          = Inr (broadcast_outcome env net self analysis video_path)
      \<and> snd (send_security_alert env net self analysis video_path)
          = (Broadcast, broadcast_outcome env net self analysis video_path)
            # (if \<not> broadcast_outcome env net self analysis video_path \<and> webhook_urls self \<noteq> []
               then [(Webhooks, send_webhook_notifications net (webhook_urls self))] else [])
            @ (case notification_url self of
                 None \<Rightarrow> []
               | Some url \<Rightarrow>
                   if url \<noteq> [] \<and> \<not> broadcast_outcome env net self analysis video_path
                      \<and> \<not> (webhook_urls self \<noteq> []
                            \<and> send_webhook_notifications net (webhook_urls self))
                   then [(Http, send_http_notification net url)] else [])
      \<and> (Webhooks \<in> fst ` set (snd (send_security_alert env net self analysis video_path)))
          = (\<not> broadcast_outcome env net self analysis video_path \<and> webhook_urls self \<noteq> [])
      \<and> (Http \<in> fst ` set (snd (send_security_alert env net self analysis video_path)))
          = (\<not> broadcast_outcome env net self analysis video_path
             \<and> \<not> (webhook_urls self \<noteq> [] \<and> send_webhook_notifications net (webhook_urls self))
             \<and> py_truthy (notification_url self))
      \<and> ((Http, h) \<in> set (snd (send_security_alert env net self analysis video_path)) \<longrightarrow>
            (\<exists>url. notification_url self = Some url \<and> h = send_http_notification net url)))
   \<and> broadcast_outcome env net self analysis video_path
       = list_ex (\<lambda>port. \<not> socket_fails net port) [9999, 9998, 10000, 8888]
   \<and> send_webhook_notifications net (webhook_urls self)
       = (\<exists>i < length (webhook_urls self).
            webhook_post net i (webhook_urls self ! i) = HttpStatus 200)
   \<and> send_http_notification net primary_url = (http_post net primary_url = HttpStatus 200)"
  using send_security_alert_channels [of self analysis env net video_path w h c]
    broadcast_outcome_ports [of env net self analysis video_path]
    send_webhook_notifications_iff [of net "webhook_urls self"]
    send_http_notification_iff [of net primary_url]
  by (simp only: simp_thms)

theorem send_security_alert_order_witness:
  "should_notify full_service (sample_analysis HIGH)
   \<and> send_security_alert sample_payload_env deaf_network full_service (sample_analysis HIGH)
        (Some ''recordings/security_clip_1.mp4'')
       = (True, [(Broadcast, False), (Webhooks, True)])
   \<and> subseq (map fst (snd (send_security_alert sample_payload_env deaf_network full_service
                (sample_analysis HIGH) (Some ''recordings/security_clip_1.mp4''))))
        [Broadcast, Webhooks, Http]
   \<and> snd (send_security_alert sample_payload_env webhooks_down_network full_service
             (sample_analysis HIGH) (Some ''recordings/security_clip_1.mp4''))
       = [(Broadcast, False), (Webhooks, False), (Http, True)]
   \<and> fst (send_security_alert sample_payload_env webhooks_down_network full_service
             (sample_analysis HIGH) (Some ''recordings/security_clip_1.mp4''))
   \<and> \<not> should_notify full_service (sample_analysis LOW)
   \<and> send_security_alert sample_payload_env deaf_network full_service (sample_analysis LOW)
        (Some ''recordings/security_clip_1.mp4'') = (False, [])"
proof -
  have high: "should_notify full_service (sample_analysis HIGH)"
    by (simp add: should_notify_def Let_def full_service_def sample_analysis_def
        is_threat_detected_cases)
  have low: "\<not> should_notify full_service (sample_analysis LOW)"
    by (simp add: should_notify_def Let_def full_service_def sample_analysis_def
        is_threat_detected_cases)
  have hooks: "send_webhook_notifications deaf_network (webhook_urls full_service)"
    by (simp add: send_webhook_notifications_def deaf_network_def full_service_def post_succeeds_def)
  have no_hooks: "\<not> send_webhook_notifications webhooks_down_network (webhook_urls full_service)"
    by (simp add: send_webhook_notifications_def webhooks_down_network_def full_service_def
        post_succeeds_def)
  have urls: "webhook_urls full_service \<noteq> []"
    by (simp add: full_service_def)
  have url: "notification_url full_service = Some ''http://192.168.1.20:3000/notify''"
    by (simp add: full_service_def)
  have post: "send_http_notification webhooks_down_network ''http://192.168.1.20:3000/notify''"
    by (simp add: send_http_notification_def webhooks_down_network_def post_succeeds_def)
  have run: "send_security_alert sample_payload_env deaf_network full_service (sample_analysis HIGH)
        (Some ''recordings/security_clip_1.mp4'')
       = (True, [(Broadcast, False), (Webhooks, True)])"
    unfolding send_security_alert_shape [OF high] Let_def deaf_broadcast
    using hooks urls by simp
  note a = send_security_alert_order
    [of full_service "sample_analysis HIGH" sample_payload_env deaf_network
        "Some ''recordings/security_clip_1.mp4''" True True Webhooks "''http://192.168.1.20:3000/notify''"]
  note b = send_security_alert_order
    [of full_service "sample_analysis LOW" sample_payload_env deaf_network
        "Some ''recordings/security_clip_1.mp4''" True True Webhooks "''http://192.168.1.20:3000/notify''"]
  note c = send_security_alert_order
    [of full_service "sample_analysis HIGH" sample_payload_env webhooks_down_network
        "Some ''recordings/security_clip_1.mp4''" True True Webhooks "''http://192.168.1.20:3000/notify''"]
  have order: "subseq (map fst (snd (send_security_alert sample_payload_env deaf_network full_service
                (sample_analysis HIGH) (Some ''recordings/security_clip_1.mp4''))))
        [Broadcast, Webhooks, Http]"
    using a high by blast
  have skip: "send_security_alert sample_payload_env deaf_network full_service (sample_analysis LOW)
        (Some ''recordings/security_clip_1.mp4'') = (False, [])"
    using b low by blast
  have shape: "snd (send_security_alert sample_payload_env webhooks_down_network full_service
             (sample_analysis HIGH) (Some ''recordings/security_clip_1.mp4''))
          = (Broadcast, broadcast_outcome sample_payload_env webhooks_down_network full_service
               (sample_analysis HIGH) (Some ''recordings/security_clip_1.mp4''))
            # (if \<not> broadcast_outcome sample_payload_env webhooks_down_network full_service
                      (sample_analysis HIGH) (Some ''recordings/security_clip_1.mp4'')
                  \<and> webhook_urls full_service \<noteq> []
               then [(Webhooks, send_webhook_notifications webhooks_down_network
                        (webhook_urls full_service))] else [])
            @ (case notification_url full_service of
                 None \<Rightarrow> []
               | Some url \<Rightarrow>
                   if url \<noteq> [] \<and> \<not> broadcast_outcome sample_payload_env webhooks_down_network
                         full_service (sample_analysis HIGH) (Some ''recordings/security_clip_1.mp4'')
                      \<and> \<not> (webhook_urls full_service \<noteq> []
                            \<and> send_webhook_notifications webhooks_down_network
                                 (webhook_urls full_service))
                   then [(Http, send_http_notification webhooks_down_network url)] else [])"
    using c high by blast
  have trace: "snd (send_security_alert sample_payload_env webhooks_down_network full_service
             (sample_analysis HIGH) (Some ''recordings/security_clip_1.mp4''))
       = [(Broadcast, False), (Webhooks, False), (Http, True)]"
    unfolding shape webhooks_down_broadcast url
    using no_hooks urls post by simp
  have "fst (send_security_alert sample_payload_env webhooks_down_network full_service
             (sample_analysis HIGH) (Some ''recordings/security_clip_1.mp4''))
      = list_ex snd (snd (send_security_alert sample_payload_env webhooks_down_network full_service
             (sample_analysis HIGH) (Some ''recordings/security_clip_1.mp4'')))"
    using c high by blast
  then have result: "fst (send_security_alert sample_payload_env webhooks_down_network full_service
             (sample_analysis HIGH) (Some ''recordings/security_clip_1.mp4''))"
    unfolding trace by simp
  show ?thesis using high low run order skip trace result by blast
qed


section \<open>The size of the broadcast message\<close>

lemma escape_char_nonempty: "1 \<le> length (escape_char c)"
  by (simp add: escape_char_def)

lemma escaped_length: "length s \<le> length (concat (map escape_char s))"
proof (induction s)
  case Nil
  then show ?case by simp
next
  case (Cons c s)
  then show ?case using escape_char_nonempty [of c] by simp
qed

lemma dumps_string_length: "length s + 2 \<le> length (dumps_string s)"
  using escaped_length [of s] by (simp add: dumps_string_def)

lemma py_join_part_length:
  assumes "part \<in> set parts"
  shows "length part \<le> length (py_join sep parts)"
proof -
  obtain before after where "py_join sep parts = before @ part @ after"
    using py_join_contains [OF assms] by blast
  then show ?thesis by simp
qed

lemma dumps_item_length:
  assumes "item \<in> set items"
  shows "length (dumps item) + 2 \<le> length (dumps (JList items))"
proof -
  have "dumps item \<in> set (map dumps items)" using assms by simp
  then have "length (dumps item) \<le> length (py_join '','' (map dumps items))"
    by (rule py_join_part_length)
  then show ?thesis by simp
qed

lemma dumps_member_length:
  assumes "(k, v) \<in> set members"
  shows "length (dumps v) + 2 \<le> length (dumps (JDict members))"
proof -
  have "dumps_string k @ '':'' @ dumps v
      \<in> set (map (\<lambda>(k, v). dumps_string k @ '':'' @ dumps v) members)"
    using assms by force
  then have "length (dumps_string k @ '':'' @ dumps v)
      \<le> length (py_join '','' (map (\<lambda>(k, v). dumps_string k @ '':'' @ dumps v) members))"
    by (rule py_join_part_length)
  then show ?thesis by simp
qed

lemma broadcast_on_ports_message:
  "(addr, port, m) \<in> set (snd (broadcast_on_ports net message ports)) \<Longrightarrow> m = message"
  by (induction ports) (auto split: prod.splits if_splits)

lemma broadcast_datagrams_message:
  assumes "(addr, port, m) \<in> set (snd (send_broadcast_notification net payload))"
  shows "broadcast_message payload = Inr m"
proof (cases "broadcast_log_line payload")
  case (Inl e)
  then show ?thesis using assms by (simp add: send_broadcast_notification_def)
next
  case log: (Inr u)
  show ?thesis
  proof (cases "broadcast_message payload")
    case (Inl e)
    then show ?thesis using assms log by (simp add: send_broadcast_notification_def)
  next
    case (Inr message)
    obtain success_count sent where
      ports: "broadcast_on_ports net message broadcast_ports = (success_count, sent)"
      by (cases "broadcast_on_ports net message broadcast_ports")
    have "(addr, port, m) \<in> set (snd (broadcast_on_ports net message broadcast_ports))"
      using assms log Inr ports by (simp add: send_broadcast_notification_def)
    then have "m = message" by (rule broadcast_on_ports_message)
    then show ?thesis using Inr by simp
  qed
qed

text \<open>
  C6, amended. A payload whose serialization is at most 1400 bytes long is sent as it is.
  When the serialization is longer, the compact variant is serialized and sent in its
  place, and its own size is not checked against the cap: it has the summary cut to 100
  characters and the keyword list cut to 2, and it carries the type, id, timestamp, threat
  level, confidence, camera and server information of the payload. Every datagram sent
  carries that message. For a payload built from an analysis, the id, the timestamp and
  the threat level of the compact variant are the strings of the payload.
\<close>

theorem broadcast_message_compaction:
  "(length (dumps (JDict payload)) \<le> 1400 \<longrightarrow>
      broadcast_message payload = Inr (dumps (JDict payload)))
   \<and> (1400 < length (dumps (JDict payload)) \<and> broadcast_message payload = Inr message \<longrightarrow>
      (\<exists>summary_slice keywords_slice.
          py_slice_to 100 (payload_get payload ''summary'' (JString [])) = Inr summary_slice
        \<and> py_slice_to 2 (payload_get payload ''keywords'' (JList [])) = Inr keywords_slice
        \<and> message = dumps (JDict
            [(''type'', payload_get payload ''type'' JNull),
             (''id'', payload_get payload ''id'' JNull),
             (''timestamp'', payload_get payload ''timestamp'' JNull),
             (''threatLevel'', payload_get payload ''threatLevel'' JNull),
             (''confidence'', payload_get payload ''confidence'' JNull),
             (''summary'', summary_slice),
             (''camera'', payload_get payload ''camera'' JNull),
             (''keywords'', keywords_slice),
             (''server_info'', payload_get payload ''server_info'' JNull)])))
   \<and> ((addr, port, m) \<in> set (snd (send_broadcast_notification net payload)) \<longrightarrow>
        broadcast_message payload = Inr m)
   \<and> (1400 < length (dumps (JDict (create_broadcast_notification_payload env self analysis video_path)))
        \<longrightarrow>
        broadcast_message (create_broadcast_notification_payload env self analysis video_path) =
          Inr (dumps (JDict
            [(''type'', JString ''security_alert''),
             (''id'', payload_get (create_broadcast_notification_payload env self analysis video_path)
                        ''id'' JNull),
             (''timestamp'', JString (isoformat_now env @ ''Z'')),
             (''threatLevel'', JString (py_upper (level_value (threat_level analysis)))),
             (''confidence'', JFloat (float_repr env (confidence analysis))),
             (''summary'', JString (take 100 (extract_summary (analysis_text analysis)))),
             (''camera'', JString (extract_camera_name video_path)),
             (''keywords'', JList (map JString (take 2 (keywords analysis)))),
             (''server_info'',
                JDict [(''ip'', JString (server_ip self)),
                       (''port'', JInt (int (notification_port self)))])])))
   \<and> (\<exists>ident. payload_get (create_broadcast_notification_payload env self analysis video_path)
                  ''id'' JNull = JString ident)"
proof -
  have small: "broadcast_message payload = Inr (dumps (JDict payload))"
    if "length (dumps (JDict payload)) \<le> 1400"
    using that by (simp add: broadcast_message_def Let_def del: dumps.simps)
  have large: "\<exists>summary_slice keywords_slice.
          py_slice_to 100 (payload_get payload ''summary'' (JString [])) = Inr summary_slice
        \<and> py_slice_to 2 (payload_get payload ''keywords'' (JList [])) = Inr keywords_slice
        \<and> message = dumps (JDict
            [(''type'', payload_get payload ''type'' JNull),
             (''id'', payload_get payload ''id'' JNull),
             (''timestamp'', payload_get payload ''timestamp'' JNull),
             (''threatLevel'', payload_get payload ''threatLevel'' JNull),
             (''confidence'', payload_get payload ''confidence'' JNull),
             (''summary'', summary_slice),
             (''camera'', payload_get payload ''camera'' JNull),
             (''keywords'', keywords_slice),
             (''server_info'', payload_get payload ''server_info'' JNull)])"
    if "1400 < length (dumps (JDict payload))" and "broadcast_message payload = Inr message"
    using that
    by (auto simp add: broadcast_message_def compact_payload_def Let_def
        simp del: dumps.simps split: sum.splits)
  have created: "broadcast_message (create_broadcast_notification_payload env self analysis video_path) =
          Inr (dumps (JDict
            [(''type'', JString ''security_alert''),
             (''id'', payload_get (create_broadcast_notification_payload env self analysis video_path)
                        ''id'' JNull),
             (''timestamp'', JString (isoformat_now env @ ''Z'')),
             (''threatLevel'', JString (py_upper (level_value (threat_level analysis)))),
             (''confidence'', JFloat (float_repr env (confidence analysis))),
             (''summary'', JString (take 100 (extract_summary (analysis_text analysis)))),
             (''camera'', JString (extract_camera_name video_path)),
             (''keywords'', JList (map JString (take 2 (keywords analysis)))),
             (''server_info'',
                JDict [(''ip'', JString (server_ip self)),
                       (''port'', JInt (int (notification_port self)))])]))"
    if "1400 < length (dumps (JDict (create_broadcast_notification_payload env self analysis video_path)))"
    using that
    by (simp add: broadcast_message_def created_payload_compact Let_def del: dumps.simps)
  show ?thesis
    using small large created broadcast_datagrams_message created_payload_get(8) by blast
qed

lemma test_payload_small: "length (dumps (JDict test_payload)) \<le> 1400"
  by (simp add: test_payload_def dumps_string_def escape_char_def str_int_def str_nat.simps
      digit_char_def)

lemma long_keyword_length: "length long_keyword = 1400"
  by (simp add: long_keyword_def)

lemma long_keyword_dict:
  assumes "(''keywords'', JList [JString long_keyword]) \<in> set members"
  shows "1400 < length (dumps (JDict members))"
proof -
  have "length long_keyword + 2 \<le> length (dumps (JString long_keyword))"
    using dumps_string_length [of long_keyword] by simp
  moreover have "length (dumps (JString long_keyword)) + 2
      \<le> length (dumps (JList [JString long_keyword]))"
    by (rule dumps_item_length) simp
  moreover have "length (dumps (JList [JString long_keyword])) + 2 \<le> length (dumps (JDict members))"
    using assms by (rule dumps_member_length)
  ultimately show ?thesis using long_keyword_length by linarith
qed

lemma long_keyword_payload_large: "1400 < length (dumps (JDict long_keyword_payload))"
proof (rule long_keyword_dict)
  show "(''keywords'', JList [JString long_keyword]) \<in> set long_keyword_payload"
    by (simp add: long_keyword_payload_def create_broadcast_notification_payload_def Let_def
        long_keyword_analysis_def)
qed

lemma long_keyword_message:
  "\<exists>members. (''keywords'', JList [JString long_keyword]) \<in> set members
      \<and> broadcast_message long_keyword_payload = Inr (dumps (JDict members))"
proof -
  have kw: "keywords long_keyword_analysis = [long_keyword]"
    by (simp add: long_keyword_analysis_def)
  have "broadcast_message long_keyword_payload = Inr (dumps (JDict
            [(''type'', JString ''security_alert''),
             (''id'', payload_get long_keyword_payload ''id'' JNull),
             (''timestamp'', JString (isoformat_now sample_payload_env @ ''Z'')),
             (''threatLevel'', JString (py_upper (level_value (threat_level long_keyword_analysis)))),
             (''confidence'', JFloat (float_repr sample_payload_env (confidence long_keyword_analysis))),
             (''summary'', JString (take 100 (extract_summary (analysis_text long_keyword_analysis)))),
             (''camera'', JString (extract_camera_name (Some ''recordings/security_clip_1.mp4''))),
             (''keywords'', JList (map JString (take 2 (keywords long_keyword_analysis)))),
             (''server_info'',
                JDict [(''ip'', JString (server_ip full_service)),
                       (''port'', JInt (int (notification_port full_service)))])]))"
    using long_keyword_payload_large
    unfolding long_keyword_payload_def
    by (simp add: broadcast_message_def created_payload_compact Let_def del: dumps.simps)
  then show ?thesis unfolding kw by (intro exI conjI) (auto simp del: dumps.simps)
qed

text \<open>
  C6 as stated fails: the compact variant is sent whatever its size. An analysis with one
  keyword of 1400 characters gives a payload whose compact variant still holds that
  keyword, and every datagram sent is longer than 1400 bytes.
\<close>

theorem broadcast_size_cap_counterexample:
  "(case broadcast_message long_keyword_payload of
      Inl e \<Rightarrow> False
    | Inr message \<Rightarrow> 1400 < length message)
   \<and> snd (send_broadcast_notification open_network long_keyword_payload) \<noteq> []
   \<and> list_all (\<lambda>datagram. 1400 < length (snd (snd datagram)))
        (snd (send_broadcast_notification open_network long_keyword_payload))"
proof -
  obtain members where mem: "(''keywords'', JList [JString long_keyword]) \<in> set members"
    and msg: "broadcast_message long_keyword_payload = Inr (dumps (JDict members))"
    using long_keyword_message by blast
  define message where "message = dumps (JDict members)"
  have len: "1400 < length message"
    unfolding message_def using mem by (rule long_keyword_dict)
  have bm: "broadcast_message long_keyword_payload = Inr message"
    using msg by (simp add: message_def)
  have log: "broadcast_log_line long_keyword_payload = Inr ()"
    unfolding long_keyword_payload_def by (rule created_payload_log_line)
  have sent: "snd (send_broadcast_notification open_network long_keyword_payload) =
      [(''255.255.255.255'', 9999, message), (''255.255.255.255'', 9998, message),
       (''255.255.255.255'', 10000, message), (''255.255.255.255'', 8888, message)]"
    by (simp add: send_broadcast_notification_def log bm broadcast_ports_def open_network_def)
  show ?thesis
    unfolding sent bm using len by simp
qed

theorem broadcast_message_compaction_witness:
  "length (dumps (JDict test_payload)) \<le> 1400
   \<and> broadcast_message test_payload = Inr (dumps (JDict test_payload))
   \<and> 1400 < length (dumps (JDict long_keyword_payload))
   \<and> broadcast_message long_keyword_payload =
          Inr (dumps (JDict
            [(''type'', JString ''security_alert''),
             (''id'', payload_get long_keyword_payload ''id'' JNull),
             (''timestamp'', JString (isoformat_now sample_payload_env @ ''Z'')),
             (''threatLevel'', JString (py_upper (level_value (threat_level long_keyword_analysis)))),
             (''confidence'', JFloat (float_repr sample_payload_env (confidence long_keyword_analysis))),
             (''summary'', JString (take 100 (extract_summary (analysis_text long_keyword_analysis)))),
             (''camera'', JString (extract_camera_name (Some ''recordings/security_clip_1.mp4''))),
             (''keywords'', JList (map JString (take 2 (keywords long_keyword_analysis)))),
             (''server_info'',
                JDict [(''ip'', JString (server_ip full_service)),
                       (''port'', JInt (int (notification_port full_service)))])]))"
proof -
  note t = broadcast_message_compaction
    [where payload = test_payload and env = sample_payload_env and self = full_service
       and analysis = long_keyword_analysis
       and video_path = "Some ''recordings/security_clip_1.mp4''"]
  have small: "broadcast_message test_payload = Inr (dumps (JDict test_payload))"
    using t test_payload_small by blast
  have large: "1400 < length (dumps (JDict
      (create_broadcast_notification_payload sample_payload_env full_service long_keyword_analysis
         (Some ''recordings/security_clip_1.mp4''))))"
    using long_keyword_payload_large by (simp only: long_keyword_payload_def)
  have compacted: "broadcast_message
      (create_broadcast_notification_payload sample_payload_env full_service long_keyword_analysis
         (Some ''recordings/security_clip_1.mp4'')) =
          Inr (dumps (JDict
            [(''type'', JString ''security_alert''),
             (''id'', payload_get
                (create_broadcast_notification_payload sample_payload_env full_service
                   long_keyword_analysis (Some ''recordings/security_clip_1.mp4'')) ''id'' JNull),
             (''timestamp'', JString (isoformat_now sample_payload_env @ ''Z'')),
             (''threatLevel'', JString (py_upper (level_value (threat_level long_keyword_analysis)))),
             (''confidence'', JFloat (float_repr sample_payload_env (confidence long_keyword_analysis))),
             (''summary'', JString (take 100 (extract_summary (analysis_text long_keyword_analysis)))),
             (''camera'', JString (extract_camera_name (Some ''recordings/security_clip_1.mp4''))),
             (''keywords'', JList (map JString (take 2 (keywords long_keyword_analysis)))),
             (''server_info'',
                JDict [(''ip'', JString (server_ip full_service)),
                       (''port'', JInt (int (notification_port full_service)))])]))"
    using t large by blast
  show ?thesis
    using test_payload_small small long_keyword_payload_large compacted
    by (simp only: long_keyword_payload_def)
qed

end
